theory Spec2Isabelle
  imports Main "HOL-Library.Sublist"
begin

section \<open>Data model\<close>

text \<open>
  JavaScript values that travel through request bodies and JSON replies. A string is the
  sequence of the bytes of its UTF-8 form, so a character beyond ASCII is two or more
  \<open>char\<close>s; on well-formed text one string contains another as JavaScript code units
  exactly when it does as bytes. Numbers in JSON values are integers here (counts,
  timestamps); the numbers \<open>parseInt\<close> can produce have their own type \<open>jsnum\<close> below.
\<close>

datatype json = JNull | JBool bool | JNum int | JStr string
  | JArr "json list" | JObj "(string \<times> json) list"

text \<open>
  A number as \<open>parseInt\<close> returns it and as \<open>fetchMessages({limit})\<close> receives it: an
  integer-valued double, \<open>NaN\<close> or an infinity. Both zeros are \<open>Fin 0\<close>.
\<close>

datatype jsnum = NaN | Fin int | PosInfinity | NegInfinity

text \<open>JavaScript errors: \<open>new Error(msg)\<close>, and the \<open>TypeError\<close> of a property read on null.\<close>

datatype error = Error string | TypeError string

fun message :: "error \<Rightarrow> string" where
  "message (Error m) = m"
| "message (TypeError m) = m"

text \<open>
  Message objects of the automation library; the fields are the ones the code reads
  (\<open>id._serialized\<close>, \<open>body\<close>, \<open>type\<close>, \<open>timestamp\<close>, \<open>from\<close>, \<open>to\<close>, \<open>fromMe\<close>,
  \<open>hasMedia\<close>, \<open>isForwarded\<close>, \<open>isStarred\<close>).
\<close>

record msg =
  msg_id :: string
  body :: string
  msg_type :: string
  msg_timestamp :: int
  msg_from :: string
  msg_to :: string
  fromMe :: bool
  hasMedia :: bool
  isForwarded :: bool
  isStarred :: bool

text \<open>Chat objects: \<open>id._serialized\<close>, \<open>name\<close>, \<open>isGroup\<close>, \<open>unreadCount\<close>, ...\<close>

record chat =
  chat_id :: string
  name :: string
  isGroup :: bool
  isReadOnly :: bool
  unreadCount :: int
  chat_timestamp :: int
  archived :: bool
  pinned :: bool
  lastMessage :: "msg option"

record contact =
  contact_id :: string
  number :: string
  contact_name :: string
  contact_pushname :: string
  isMyContact :: bool
  isBlocked :: bool
  isWAContact :: bool

text \<open>\<open>client.info\<close>: \<open>pushname\<close>, \<open>wid.user\<close>, \<open>wid._serialized\<close>, \<open>platform\<close>, \<open>me\<close>.\<close>

record client_info =
  pushname :: string
  wid_user :: string
  wid_serialized :: string
  platform :: string
  me :: json

section \<open>The automation client (external collaborator)\<close>

text \<open>
  The library is opaque: each primitive is a parameter that answers with a value or
  throws (\<open>Inl\<close>). Chats and messages are the snapshots the library hands out, so within
  one operation an answer depends on the arguments only. Every call the adapter makes is
  appended to a log, so that "no collaborator call was made" is a statement about the log.
\<close>

record collab =
  client_getChats :: "error + chat list"
  client_getChatById :: "json \<Rightarrow> error + chat"
  chat_fetchMessages :: "chat \<Rightarrow> jsnum \<Rightarrow> error + msg list"
  chat_sendSeen :: "chat \<Rightarrow> error + bool"
  chat_sendMessage :: "chat \<Rightarrow> json \<Rightarrow> error + msg"
  client_sendMessage :: "string \<Rightarrow> json \<Rightarrow> error + msg"
  client_getContactById :: "string \<Rightarrow> error + contact"
  client_getContacts :: "error + contact list"

datatype call =
    CGetChats
  | CGetChatById json
  | CFetchMessages chat jsnum
  | CSendSeen chat
  | CChatSendMessage chat json
  | CClientSendMessage string json
  | CGetContactById string
  | CGetContacts

text \<open>An async operation: it reads the log so far, and returns a value or an error, and the log.\<close>

type_synonym 'a io = "call list \<Rightarrow> (error + 'a) \<times> call list"

definition ret :: "'a \<Rightarrow> 'a io" where
  "ret v log = (Inr v, log)"

definition throw :: "error \<Rightarrow> 'a io" where
  "throw e log = (Inl e, log)"

definition await :: "'a io \<Rightarrow> ('a \<Rightarrow> 'b io) \<Rightarrow> 'b io" where
  "await m f log = (case m log of (Inl e, log') \<Rightarrow> (Inl e, log') | (Inr v, log') \<Rightarrow> f v log')"

definition invoke :: "call \<Rightarrow> error + 'a \<Rightarrow> 'a io" where
  "invoke c r log = (r, log @ [c])"

section \<open>The adapter (class WhatsAppClient)\<close>

text \<open>
  The fields of the class: \<open>client\<close> (null or an object: \<open>hasClient\<close>), \<open>isReady\<close>,
  \<open>clientInfo\<close>, \<open>qrCode\<close>.
\<close>

record adapter =
  hasClient :: bool
  isReady :: bool
  clientInfo :: "client_info option"
  qrCode :: "string option"

definition notReady :: error where
  "notReady = Error ''Client is not ready''"

definition nullClient :: error where
  "nullClient = TypeError ''Cannot read properties of null (client)''"

definition nullClientInfo :: error where
  "nullClientInfo = TypeError ''Cannot read properties of null (clientInfo)''"

definition isClientReady :: "adapter \<Rightarrow> bool" where
  "isClientReady a = isReady a"

definition getClientInfo :: "adapter \<Rightarrow> client_info option" where
  "getClientInfo a = clientInfo a"

definition getQRCode :: "adapter \<Rightarrow> string option" where
  "getQRCode a = qrCode a"

subsection \<open>Chat operations\<close>

definition getChats :: "collab \<Rightarrow> adapter \<Rightarrow> chat list io" where
  "getChats cl a =
     (if \<not> isReady a then throw notReady
      else if \<not> hasClient a then throw nullClient
      else invoke CGetChats (client_getChats cl))"

definition getChatById :: "collab \<Rightarrow> adapter \<Rightarrow> json \<Rightarrow> chat io" where
  "getChatById cl a chatId =
     (if \<not> isReady a then throw notReady
      else if \<not> hasClient a then throw nullClient
      else invoke (CGetChatById chatId) (client_getChatById cl chatId))"

definition getUnreadChats :: "collab \<Rightarrow> adapter \<Rightarrow> chat list io" where
  "getUnreadChats cl a =
     await (getChats cl a) (\<lambda>chats. ret (filter (\<lambda>chat. unreadCount chat > 0) chats))"

text \<open>The entries \<open>getAllUnreadMessages\<close> pushes.\<close>

record unread_entry =
  ue_chatId :: string
  ue_chatName :: string
  ue_isGroup :: bool
  ue_unreadCount :: nat
  ue_messages :: "msg list"

text \<open>
  The \<open>for (const chat of chats)\<close> loop of \<open>getAllUnreadMessages\<close>; the accumulator is
  \<open>allUnreadMessages\<close>. A \<open>fetchMessages\<close> that throws ends the whole operation.
\<close>

fun allUnreadLoop :: "collab \<Rightarrow> chat list \<Rightarrow> unread_entry list \<Rightarrow> unread_entry list io" where
  "allUnreadLoop cl [] allUnreadMessages log = (Inr allUnreadMessages, log)"
| "allUnreadLoop cl (chat # chats) allUnreadMessages log =
     (if unreadCount chat > 0 then
        (case chat_fetchMessages cl chat (Fin (unreadCount chat)) of
           Inl e \<Rightarrow> (Inl e, log @ [CFetchMessages chat (Fin (unreadCount chat))])
         | Inr messages \<Rightarrow>
             (let unreadMessages = filter (\<lambda>m. \<not> fromMe m) messages in
              if length unreadMessages > 0 then
                allUnreadLoop cl chats
                  (allUnreadMessages @
                     [\<lparr>ue_chatId = chat_id chat, ue_chatName = name chat,
                       ue_isGroup = isGroup chat, ue_unreadCount = length unreadMessages,
                       ue_messages = unreadMessages\<rparr>])
                  (log @ [CFetchMessages chat (Fin (unreadCount chat))])
              else
                allUnreadLoop cl chats allUnreadMessages
                  (log @ [CFetchMessages chat (Fin (unreadCount chat))])))
      else allUnreadLoop cl chats allUnreadMessages log)"

definition getAllUnreadMessages :: "collab \<Rightarrow> adapter \<Rightarrow> unread_entry list io" where
  "getAllUnreadMessages cl a = await (getChats cl a) (\<lambda>chats. allUnreadLoop cl chats [])"

text \<open>\<open>getMessages(chatId, limit = 50)\<close>: an absent limit is \<open>None\<close>.\<close>

definition getMessages :: "collab \<Rightarrow> adapter \<Rightarrow> json \<Rightarrow> jsnum option \<Rightarrow> msg list io" where
  "getMessages cl a chatId limit_opt =
     (let limit = (case limit_opt of None \<Rightarrow> Fin 50 | Some l \<Rightarrow> l) in
      await (getChatById cl a chatId)
        (\<lambda>chat. invoke (CFetchMessages chat limit) (chat_fetchMessages cl chat limit)))"

definition getUnreadMessagesFromChat :: "collab \<Rightarrow> adapter \<Rightarrow> json \<Rightarrow> msg list io" where
  "getUnreadMessagesFromChat cl a chatId =
     await (getChatById cl a chatId)
       (\<lambda>chat. if unreadCount chat = 0 then ret []
               else await (invoke (CFetchMessages chat (Fin (unreadCount chat)))
                             (chat_fetchMessages cl chat (Fin (unreadCount chat))))
                      (\<lambda>messages. ret (filter (\<lambda>m. \<not> fromMe m) messages)))"

subsection \<open>Message actions\<close>

record mark_result =
  mr_chatId :: json
  mr_chatName :: string

definition markChatAsRead :: "collab \<Rightarrow> adapter \<Rightarrow> json \<Rightarrow> mark_result io" where
  "markChatAsRead cl a chatId =
     await (getChatById cl a chatId)
       (\<lambda>chat. await (invoke (CSendSeen chat) (chat_sendSeen cl chat))
                 (\<lambda>_. ret \<lparr>mr_chatId = chatId, mr_chatName = name chat\<rparr>))"

text \<open>One entry of the \<open>results\<close> array of \<open>markAllChatsAsRead\<close>; \<open>error\<close> is set on failure only.\<close>

record seen_result =
  sr_chatId :: string
  sr_chatName :: string
  sr_success :: bool
  sr_error :: "string option"

text \<open>The loop with its try/catch around \<open>chat.sendSeen()\<close>.\<close>

fun markAllLoop :: "collab \<Rightarrow> chat list \<Rightarrow> seen_result list \<Rightarrow> call list
    \<Rightarrow> seen_result list \<times> call list" where
  "markAllLoop cl [] results log = (results, log)"
| "markAllLoop cl (chat # unreadChats) results log =
     (case chat_sendSeen cl chat of
        Inr _ \<Rightarrow>
          markAllLoop cl unreadChats
            (results @ [\<lparr>sr_chatId = chat_id chat, sr_chatName = name chat,
                         sr_success = True, sr_error = None\<rparr>])
            (log @ [CSendSeen chat])
      | Inl e \<Rightarrow>
          markAllLoop cl unreadChats
            (results @ [\<lparr>sr_chatId = chat_id chat, sr_chatName = name chat,
                         sr_success = False, sr_error = Some (message e)\<rparr>])
            (log @ [CSendSeen chat]))"

definition markAllChatsAsRead :: "collab \<Rightarrow> adapter \<Rightarrow> seen_result list io" where
  "markAllChatsAsRead cl a =
     await (getChats cl a)
       (\<lambda>chats log.
          let unreadChats = filter (\<lambda>chat. unreadCount chat > 0) chats in
          case markAllLoop cl unreadChats [] log of (results, log') \<Rightarrow> (Inr results, log'))"

definition sendMessage :: "collab \<Rightarrow> adapter \<Rightarrow> json \<Rightarrow> json \<Rightarrow> msg io" where
  "sendMessage cl a chatId content =
     await (getChatById cl a chatId)
       (\<lambda>chat. invoke (CChatSendMessage chat content) (chat_sendMessage cl chat content))"

definition sendMessageToSelf :: "collab \<Rightarrow> adapter \<Rightarrow> json \<Rightarrow> msg io" where
  "sendMessageToSelf cl a content =
     (if \<not> isReady a then throw notReady
      else case clientInfo a of
        None \<Rightarrow> throw nullClientInfo
      | Some info \<Rightarrow>
          (let myNumber = wid_serialized info in
           if \<not> hasClient a then throw nullClient
           else invoke (CClientSendMessage myNumber content) (client_sendMessage cl myNumber content)))"

subsection \<open>Search\<close>

text \<open>
  \<open>String.prototype.toLowerCase\<close> is the Unicode case mapping of the JavaScript runtime.
  It is not spelled out here: every operation that lower-cases takes it as the parameter
  \<open>toLowerCase\<close>, and what is proved holds for every such function.
\<close>

type_synonym lowering = "string \<Rightarrow> string"

text \<open>\<open>s.includes(q)\<close>: does \<open>s\<close> contain \<open>q\<close> as a contiguous run.\<close>

fun includes_str :: "string \<Rightarrow> string \<Rightarrow> bool" where
  "includes_str [] q = (q = [])"
| "includes_str (c # s) q = (prefix q (c # s) \<or> includes_str s q)"

text \<open>The filter callback: \<open>msg.body && msg.body.toLowerCase().includes(query.toLowerCase())\<close>.\<close>

definition isMatch :: "lowering \<Rightarrow> string \<Rightarrow> msg \<Rightarrow> bool" where
  "isMatch toLowerCase query m =
     (body m \<noteq> [] \<and> includes_str (toLowerCase (body m)) (toLowerCase query))"

record search_entry =
  se_chatId :: string
  se_chatName :: string
  se_isGroup :: bool
  se_matches :: "msg list"

text \<open>\<open>if (chatId)\<close>, \<open>!message\<close>: JavaScript truthiness.\<close>

fun truthy :: "json \<Rightarrow> bool" where
  "truthy JNull = False"
| "truthy (JBool b) = b"
| "truthy (JNum n) = (n \<noteq> 0)"
| "truthy (JStr s) = (s \<noteq> [])"
| "truthy (JArr _) = True"
| "truthy (JObj _) = True"

text \<open>The loop over all chats of \<open>searchMessages\<close>.\<close>

fun searchLoop :: "lowering \<Rightarrow> collab \<Rightarrow> string \<Rightarrow> jsnum \<Rightarrow> chat list
    \<Rightarrow> search_entry list \<Rightarrow> search_entry list io" where
  "searchLoop toLowerCase cl query limit [] results log = (Inr results, log)"
| "searchLoop toLowerCase cl query limit (chat # chats) results log =
     (case chat_fetchMessages cl chat limit of
        Inl e \<Rightarrow> (Inl e, log @ [CFetchMessages chat limit])
      | Inr messages \<Rightarrow>
          (let matches = filter (isMatch toLowerCase query) messages in
           if length matches > 0 then
             searchLoop toLowerCase cl query limit chats
               (results @ [\<lparr>se_chatId = chat_id chat, se_chatName = name chat,
                            se_isGroup = isGroup chat, se_matches = matches\<rparr>])
               (log @ [CFetchMessages chat limit])
           else searchLoop toLowerCase cl query limit chats results
                  (log @ [CFetchMessages chat limit])))"

text \<open>
  \<open>searchMessages(query, options = {})\<close> with \<open>const { limit = 50, chatId = null } = options\<close>:
  an absent option is \<open>None\<close>.
\<close>

definition searchMessages :: "lowering \<Rightarrow> collab \<Rightarrow> adapter \<Rightarrow> string \<Rightarrow> jsnum option
    \<Rightarrow> json option \<Rightarrow> search_entry list io" where
  "searchMessages toLowerCase cl a query limit_opt chatId_opt =
     (let limit = (case limit_opt of None \<Rightarrow> Fin 50 | Some l \<Rightarrow> l);
          chatId = (case chatId_opt of None \<Rightarrow> JNull | Some c \<Rightarrow> c) in
      if truthy chatId then
        await (getChatById cl a chatId)
          (\<lambda>chat. await (invoke (CFetchMessages chat limit) (chat_fetchMessages cl chat limit))
             (\<lambda>messages.
                let matches = filter (isMatch toLowerCase query) messages in
                if length matches > 0 then
                  ret [\<lparr>se_chatId = chat_id chat, se_chatName = name chat,
                        se_isGroup = isGroup chat, se_matches = matches\<rparr>]
                else ret []))
      else
        await (getChats cl a) (\<lambda>chats. searchLoop toLowerCase cl query limit chats []))"

subsection \<open>Contacts and user information\<close>

definition getContactById :: "collab \<Rightarrow> adapter \<Rightarrow> string \<Rightarrow> contact io" where
  "getContactById cl a contactId =
     (if \<not> isReady a then throw notReady
      else if \<not> hasClient a then throw nullClient
      else invoke (CGetContactById contactId) (client_getContactById cl contactId))"

definition getContacts :: "collab \<Rightarrow> adapter \<Rightarrow> contact list io" where
  "getContacts cl a =
     (if \<not> isReady a then throw notReady
      else if \<not> hasClient a then throw nullClient
      else invoke CGetContacts (client_getContacts cl))"

record user_info =
  ui_pushname :: string
  ui_number :: string
  ui_platform :: string
  ui_wid :: string
  ui_me :: json

definition getUserInfo :: "adapter \<Rightarrow> user_info io" where
  "getUserInfo a =
     (if \<not> isReady a then throw notReady
      else case clientInfo a of
        None \<Rightarrow> throw nullClientInfo
      | Some info \<Rightarrow>
          ret \<lparr>ui_pushname = pushname info, ui_number = wid_user info,
               ui_platform = platform info, ui_wid = wid_serialized info, ui_me = me info\<rparr>)"

section \<open>The HTTP layer (server.js)\<close>

text \<open>The module state: the adapter instance and \<open>lastQRCode\<close>.\<close>

record server =
  whatsappClient :: adapter
  lastQRCode :: "string option"

text \<open>
  A request as it leaves \<open>cors()\<close>, which passes every request on except \<open>OPTIONS\<close>
  (preflight) requests; those it answers itself, and they are not part of the model.
  \<open>bodyError\<close> is the error that \<open>bodyParser.json()\<close> or \<open>bodyParser.urlencoded()\<close> raises
  on the request's body (malformed JSON, a body that is too large, ...), \<open>None\<close> when both
  let the request through. \<open>paramError\<close> is the error the router raises when the path
  parameter of a route (\<open>:chatId\<close>, \<open>:contactId\<close>) cannot be percent-decoded, \<open>None\<close> when
  it decodes; the decoded parameter is carried by the route. The handlers read the query
  parameters \<open>limit\<close>, \<open>query\<close>, \<open>chatId\<close> (strings, or absent) and the body fields
  \<open>chatId\<close>, \<open>message\<close> (any JSON value, or absent).
\<close>

record request =
  bodyError :: "error option"
  paramError :: "error option"
  q_limit :: "string option"
  q_query :: "string option"
  q_chatId :: "string option"
  b_chatId :: "json option"
  b_message :: "json option"

text \<open>
  What the router resolves method and path to: one of the registered routes, or
  \<open>Unmatched\<close> with the path.
\<close>

datatype route =
    Root | Health | Qr
  | ApiChats | ApiUnreadChats | ApiUnreadMessages
  | ApiChatMessages string | ApiChatUnread string
  | ApiMarkRead string | ApiMarkAllRead
  | ApiSendMessage | ApiSendMessageToSelf
  | ApiSearch
  | ApiContact string | ApiContacts
  | Unmatched string

text \<open>\<open>res.status(n).json(b)\<close>; a plain \<open>res.json(b)\<close> has status 200.\<close>

record response =
  status :: nat
  payload :: json

definition json_reply :: "json \<Rightarrow> response" where
  "json_reply b = \<lparr>status = 200, payload = b\<rparr>"

text \<open>Field lookup in a JSON object (the first binding of the key).\<close>

fun field :: "string \<Rightarrow> json \<Rightarrow> json option" where
  "field k (JObj kvs) = map_of kvs k"
| "field k _ = None"

subsection \<open>Middleware\<close>

definition requireClient :: "server \<Rightarrow> (call list \<Rightarrow> response \<times> call list)
    \<Rightarrow> call list \<Rightarrow> response \<times> call list" where
  "requireClient srv nxt log =
     (if \<not> isClientReady (whatsappClient srv) then
        (\<lparr>status = 503,
          payload = JObj [(''success'', JBool False),
            (''error'', JStr ''WhatsApp client is not ready. Please scan QR code first.''),
            (''qrAvailable'', JBool (lastQRCode srv \<noteq> None))]\<rparr>, log)
      else nxt log)"

text \<open>The error-handling middleware, reached through \<open>asyncHandler\<close>'s \<open>catch(next)\<close>.\<close>

definition errorHandler :: "error \<Rightarrow> response" where
  "errorHandler err =
     \<lparr>status = 500,
      payload = JObj [(''success'', JBool False), (''error'', JStr ''Internal server error''),
        (''message'', JStr (message err))]\<rparr>"

definition asyncHandler :: "response io \<Rightarrow> call list \<Rightarrow> response \<times> call list" where
  "asyncHandler fn log =
     (case fn log of (Inl err, log') \<Rightarrow> (errorHandler err, log') | (Inr res, log') \<Rightarrow> (res, log'))"

text \<open>
  A route with a path parameter: when the parameter does not decode, the router skips the
  route and hands the error to the error-handling middleware.
\<close>

definition decodeParam :: "request \<Rightarrow> (call list \<Rightarrow> response \<times> call list)
    \<Rightarrow> call list \<Rightarrow> response \<times> call list" where
  "decodeParam req nxt log =
     (case paramError req of Some err \<Rightarrow> (errorHandler err, log) | None \<Rightarrow> nxt log)"

subsection \<open>JavaScript helpers\<close>

text \<open>\<open>!x\<close> on a value that may be \<open>undefined\<close>.\<close>

definition falsy :: "json option \<Rightarrow> bool" where
  "falsy x = (case x of None \<Rightarrow> True | Some v \<Rightarrow> \<not> truthy v)"

text \<open>
  The white space \<open>parseInt\<close> skips (WhiteSpace and LineTerminator of ECMAScript), each in
  UTF-8: TAB, LF, VT, FF, CR, SP, U+00A0, U+1680, U+2000 to U+200A, U+2028, U+2029,
  U+202F, U+205F, U+3000 and U+FEFF.
\<close>

definition whiteSpace :: "string list" where
  "whiteSpace =
     [[CHR 0x09], [CHR 0x0A], [CHR 0x0B], [CHR 0x0C], [CHR 0x0D], [CHR 0x20],
      [CHR 0xC2, CHR 0xA0], [CHR 0xE1, CHR 0x9A, CHR 0x80],
      [CHR 0xE2, CHR 0x80, CHR 0x80], [CHR 0xE2, CHR 0x80, CHR 0x81],
      [CHR 0xE2, CHR 0x80, CHR 0x82], [CHR 0xE2, CHR 0x80, CHR 0x83],
      [CHR 0xE2, CHR 0x80, CHR 0x84], [CHR 0xE2, CHR 0x80, CHR 0x85],
      [CHR 0xE2, CHR 0x80, CHR 0x86], [CHR 0xE2, CHR 0x80, CHR 0x87],
      [CHR 0xE2, CHR 0x80, CHR 0x88], [CHR 0xE2, CHR 0x80, CHR 0x89],
      [CHR 0xE2, CHR 0x80, CHR 0x8A], [CHR 0xE2, CHR 0x80, CHR 0xA8],
      [CHR 0xE2, CHR 0x80, CHR 0xA9], [CHR 0xE2, CHR 0x80, CHR 0xAF],
      [CHR 0xE2, CHR 0x81, CHR 0x9F], [CHR 0xE3, CHR 0x80, CHR 0x80],
      [CHR 0xEF, CHR 0xBB, CHR 0xBF]]"

text \<open>The number of bytes of the white-space character a string starts with, 0 for none.\<close>

definition leadingWhiteSpace :: "string \<Rightarrow> nat" where
  "leadingWhiteSpace s =
     (case find (\<lambda>w. prefix w s) whiteSpace of None \<Rightarrow> 0 | Some w \<Rightarrow> length w)"

function trimStart :: "string \<Rightarrow> string" where
  "trimStart s =
     (if leadingWhiteSpace s = 0 then s else trimStart (drop (leadingWhiteSpace s) s))"
  by pat_completeness auto
termination
proof (relation "measure length")
  show "wf (measure length)" by simp
next
  fix s :: string
  assume w: "leadingWhiteSpace s \<noteq> 0"
  have "s \<noteq> []"
  proof
    assume "s = []"
    then have "leadingWhiteSpace s = 0"
      by (simp add: leadingWhiteSpace_def whiteSpace_def)
    with w show False by simp
  qed
  with w show "(drop (leadingWhiteSpace s) s, s) \<in> measure length"
    by simp
qed

text \<open>
  The Number value of an integer: the nearest double, ties to the even significand of
  53 bits, an infinity from \<open>2 ^ 1024\<close> on.
\<close>

fun bitLength :: "nat \<Rightarrow> nat" where
  "bitLength n = (if n = 0 then 0 else Suc (bitLength (n div 2)))"

definition toNumber :: "int \<Rightarrow> jsnum" where
  "toNumber i =
     (let n = nat \<bar>i\<bar>; k = bitLength n in
      if k \<le> 53 then Fin i
      else
        (let e = k - 53; q = n div 2 ^ e; r = n mod 2 ^ e; half = 2 ^ (e - 1);
             q' = (if half < r \<or> (r = half \<and> odd q) then q + 1 else q);
             v = q' * 2 ^ e
         in if 2 ^ 1024 \<le> v then (if i < 0 then NegInfinity else PosInfinity)
            else Fin (if i < 0 then - int v else int v)))"

text \<open>
  \<open>parseInt(s)\<close> without a radix: leading white space is skipped, then an optional sign,
  then \<open>0x\<close>/\<open>0X\<close> selects base 16, then the longest run of digits is read; no digit gives
  \<open>NaN\<close>, and the digits give the Number value of the integer they spell.
\<close>

definition digitValue :: "nat \<Rightarrow> char \<Rightarrow> nat option" where
  "digitValue radix c =
     (let n = (of_char c :: nat) in
      if 48 \<le> n \<and> n \<le> 57 then Some (n - 48)
      else if radix = 16 \<and> 97 \<le> n \<and> n \<le> 102 then Some (n - 87)
      else if radix = 16 \<and> 65 \<le> n \<and> n \<le> 70 then Some (n - 55)
      else None)"

definition parseInt :: "string \<Rightarrow> jsnum" where
  "parseInt inputString =
     (let s = trimStart inputString;
          neg = (s \<noteq> [] \<and> hd s = CHR ''-'');
          s1 = (if s \<noteq> [] \<and> (hd s = CHR ''-'' \<or> hd s = CHR ''+'') then tl s else s);
          hex = (take 2 s1 = ''0x'' \<or> take 2 s1 = ''0X'');
          radix = (if hex then 16 else 10);
          s2 = (if hex then drop 2 s1 else s1);
          z = takeWhile (\<lambda>c. digitValue radix c \<noteq> None) s2;
          v = foldl (\<lambda>acc c. acc * int radix + int (the (digitValue radix c))) 0 z
      in if z = [] then NaN else toNumber (if neg then - v else v))"

text \<open>\<open>n || 50\<close> on a number: \<open>NaN\<close> and \<open>0\<close> are falsy, every other number is kept.\<close>

definition orDefault :: "jsnum \<Rightarrow> int \<Rightarrow> jsnum" where
  "orDefault n d =
     (case n of
        NaN \<Rightarrow> Fin d
      | Fin v \<Rightarrow> if v = 0 then Fin d else Fin v
      | PosInfinity \<Rightarrow> PosInfinity
      | NegInfinity \<Rightarrow> NegInfinity)"

text \<open>A count inside a template string.\<close>

fun showNat :: "nat \<Rightarrow> string" where
  "showNat n =
     (if n < 10 then [char_of (48 + n)] else showNat (n div 10) @ [char_of (48 + n mod 10)])"

subsection \<open>Routes without the readiness gate\<close>

definition rootHandler :: "server \<Rightarrow> response" where
  "rootHandler srv =
     json_reply (JObj [(''name'', JStr ''WhatsApp REST API''), (''version'', JStr ''1.0.0''),
       (''status'', JStr (if isClientReady (whatsappClient srv) then ''ready'' else ''not ready'')),
       (''documentation'', JObj [
          (''health'', JStr ''GET /health''),
          (''qr'', JStr ''GET /qr''),
          (''chats'', JStr ''GET /api/chats''),
          (''unreadChats'', JStr ''GET /api/unread-chats''),
          (''unreadMessages'', JStr ''GET /api/unread-messages''),
          (''chatMessages'', JStr ''GET /api/chats/:chatId/messages?limit=50''),
          (''unreadFromChat'', JStr ''GET /api/chats/:chatId/unread''),
          (''markRead'', JStr ''POST /api/chats/:chatId/mark-read''),
          (''markAllRead'', JStr ''POST /api/mark-all-read''),
          (''sendMessage'', JStr ''POST /api/send-message''),
          (''searchMessages'', JStr ''GET /api/search?query=keyword&limit=50''),
          (''contactInfo'', JStr ''GET /api/contacts/:contactId''),
          (''allContacts'', JStr ''GET /api/contacts'')])])"

definition healthHandler :: "server \<Rightarrow> response" where
  "healthHandler srv =
     (let info = getClientInfo (whatsappClient srv) in
      json_reply (JObj [(''success'', JBool True),
        (''status'', JStr (if isClientReady (whatsappClient srv) then ''ready'' else ''initializing'')),
        (''connected'', JBool (isClientReady (whatsappClient srv))),
        (''qrAvailable'', JBool (lastQRCode srv \<noteq> None)),
        (''info'', (case info of
            None \<Rightarrow> JNull
          | Some i \<Rightarrow> JObj [(''name'', JStr (pushname i)), (''number'', JStr (wid_user i)),
                           (''platform'', JStr (platform i))]))]))"

definition qrHandler :: "server \<Rightarrow> response" where
  "qrHandler srv =
     (if isClientReady (whatsappClient srv) then
        json_reply (JObj [(''success'', JBool True), (''message'', JStr ''Already authenticated''),
          (''authenticated'', JBool True)])
      else case lastQRCode srv of
        None \<Rightarrow>
          json_reply (JObj [(''success'', JBool False),
            (''message'', JStr ''QR code not yet generated. Please wait...'')])
      | Some qr \<Rightarrow>
          if qr \<noteq> [] then
            json_reply (JObj [(''success'', JBool True), (''qr'', JStr qr),
              (''message'', JStr ''Scan this QR code with WhatsApp'')])
          else
            json_reply (JObj [(''success'', JBool False),
              (''message'', JStr ''QR code not yet generated. Please wait...'')]))"

definition notFoundHandler :: "string \<Rightarrow> response" where
  "notFoundHandler path =
     \<lparr>status = 404,
      payload = JObj [(''success'', JBool False), (''error'', JStr ''Endpoint not found''),
        (''path'', JStr path)]\<rparr>"

subsection \<open>Chat routes\<close>

definition chatsHandler :: "collab \<Rightarrow> server \<Rightarrow> response io" where
  "chatsHandler cl srv =
     await (getChats cl (whatsappClient srv))
       (\<lambda>chats.
          let result = map (\<lambda>chat. JObj [
                (''id'', JStr (chat_id chat)), (''name'', JStr (name chat)),
                (''isGroup'', JBool (isGroup chat)), (''isReadOnly'', JBool (isReadOnly chat)),
                (''unreadCount'', JNum (unreadCount chat)),
                (''timestamp'', JNum (chat_timestamp chat)),
                (''archived'', JBool (archived chat)), (''pinned'', JBool (pinned chat)),
                (''lastMessage'', (case lastMessage chat of
                    None \<Rightarrow> JNull
                  | Some m \<Rightarrow> JObj [(''body'', JStr (body m)), (''type'', JStr (msg_type m)),
                      (''timestamp'', JNum (msg_timestamp m)), (''fromMe'', JBool (fromMe m))]))])
                chats
          in ret (json_reply (JObj [(''success'', JBool True),
                (''count'', JNum (int (length result))), (''data'', JArr result)])))"

text \<open>The objects \<open>/api/unread-chats\<close> maps each chat to, before they are serialised.\<close>

record unread_chat_view =
  uv_id :: string
  uv_name :: string
  uv_isGroup :: bool
  uv_unreadCount :: int
  uv_lastMessage :: "(string \<times> int) option"

definition unread_chat_json :: "unread_chat_view \<Rightarrow> json" where
  "unread_chat_json v =
     JObj [(''id'', JStr (uv_id v)), (''name'', JStr (uv_name v)),
       (''isGroup'', JBool (uv_isGroup v)), (''unreadCount'', JNum (uv_unreadCount v)),
       (''lastMessage'', (case uv_lastMessage v of
           None \<Rightarrow> JNull
         | Some (b, t) \<Rightarrow> JObj [(''body'', JStr b), (''timestamp'', JNum t)]))]"

definition unreadChatsHandler :: "collab \<Rightarrow> server \<Rightarrow> response io" where
  "unreadChatsHandler cl srv =
     await (getUnreadChats cl (whatsappClient srv))
       (\<lambda>unreadChats.
          let result = map (\<lambda>chat.
                \<lparr>uv_id = chat_id chat, uv_name = name chat, uv_isGroup = isGroup chat,
                  uv_unreadCount = unreadCount chat,
                  uv_lastMessage = (case lastMessage chat of
                      None \<Rightarrow> None
                    | Some m \<Rightarrow> Some (body m, msg_timestamp m))\<rparr>) unreadChats
          in ret (json_reply (JObj [(''success'', JBool True),
                (''count'', JNum (int (length result))),
                (''totalUnread'', JNum (foldl (\<lambda>sum chat. sum + uv_unreadCount chat) 0 result)),
                (''data'', JArr (map unread_chat_json result))])))"

text \<open>The objects \<open>/api/unread-messages\<close> maps each entry to: the messages are already JSON.\<close>

record unread_messages_view =
  um_chatId :: string
  um_chatName :: string
  um_isGroup :: bool
  um_unreadCount :: nat
  um_messages :: "json list"

definition unreadMessagesHandler :: "collab \<Rightarrow> server \<Rightarrow> response io" where
  "unreadMessagesHandler cl srv =
     await (getAllUnreadMessages cl (whatsappClient srv))
       (\<lambda>allUnreadMessages.
          let result = map (\<lambda>chat.
                \<lparr>um_chatId = ue_chatId chat, um_chatName = ue_chatName chat,
                  um_isGroup = ue_isGroup chat, um_unreadCount = ue_unreadCount chat,
                  um_messages = map (\<lambda>m. JObj [
                      (''id'', JStr (msg_id m)), (''body'', JStr (body m)),
                      (''type'', JStr (msg_type m)), (''timestamp'', JNum (msg_timestamp m)),
                      (''from'', JStr (msg_from m)), (''hasMedia'', JBool (hasMedia m)),
                      (''isForwarded'', JBool (isForwarded m))]) (ue_messages chat)\<rparr>)
                allUnreadMessages;
              totalMessages = foldl (\<lambda>sum chat. sum + length (um_messages chat)) 0 result
          in ret (json_reply (JObj [(''success'', JBool True),
                (''chatCount'', JNum (int (length result))),
                (''totalMessages'', JNum (int totalMessages)),
                (''data'', JArr (map (\<lambda>v. JObj [
                    (''chatId'', JStr (um_chatId v)), (''chatName'', JStr (um_chatName v)),
                    (''isGroup'', JBool (um_isGroup v)),
                    (''unreadCount'', JNum (int (um_unreadCount v))),
                    (''messages'', JArr (um_messages v))]) result))])))"

definition chatMessagesHandler :: "collab \<Rightarrow> server \<Rightarrow> string \<Rightarrow> request \<Rightarrow> response io" where
  "chatMessagesHandler cl srv chatId req =
     (let limit = orDefault
            (parseInt (case q_limit req of None \<Rightarrow> ''undefined'' | Some s \<Rightarrow> s)) 50 in
      await (getChatById cl (whatsappClient srv) (JStr chatId))
        (\<lambda>chat. await (getMessages cl (whatsappClient srv) (JStr chatId) (Some limit))
           (\<lambda>messages.
              let result = map (\<lambda>m. JObj [
                    (''id'', JStr (msg_id m)), (''body'', JStr (body m)),
                    (''type'', JStr (msg_type m)), (''timestamp'', JNum (msg_timestamp m)),
                    (''from'', JStr (msg_from m)), (''to'', JStr (msg_to m)),
                    (''fromMe'', JBool (fromMe m)), (''hasMedia'', JBool (hasMedia m)),
                    (''isForwarded'', JBool (isForwarded m)),
                    (''isStarred'', JBool (isStarred m))]) messages
              in ret (json_reply (JObj [(''success'', JBool True), (''chatId'', JStr chatId),
                    (''chatName'', JStr (name chat)), (''count'', JNum (int (length result))),
                    (''data'', JArr result)])))))"

definition chatUnreadHandler :: "collab \<Rightarrow> server \<Rightarrow> string \<Rightarrow> response io" where
  "chatUnreadHandler cl srv chatId =
     await (getChatById cl (whatsappClient srv) (JStr chatId))
       (\<lambda>chat. await (getUnreadMessagesFromChat cl (whatsappClient srv) (JStr chatId))
          (\<lambda>unreadMessages.
             let result = map (\<lambda>m. JObj [
                   (''id'', JStr (msg_id m)), (''body'', JStr (body m)),
                   (''type'', JStr (msg_type m)), (''timestamp'', JNum (msg_timestamp m)),
                   (''from'', JStr (msg_from m)), (''hasMedia'', JBool (hasMedia m))])
                   unreadMessages
             in ret (json_reply (JObj [(''success'', JBool True), (''chatId'', JStr chatId),
                   (''chatName'', JStr (name chat)),
                   (''unreadCount'', JNum (int (length result))), (''data'', JArr result)]))))"

definition markReadHandler :: "collab \<Rightarrow> server \<Rightarrow> string \<Rightarrow> response io" where
  "markReadHandler cl srv chatId =
     await (markChatAsRead cl (whatsappClient srv) (JStr chatId))
       (\<lambda>result. ret (json_reply (JObj [(''success'', JBool True),
          (''message'', JStr (''Marked '' @ mr_chatName result @ '' as read'')),
          (''chatId'', mr_chatId result), (''chatName'', JStr (mr_chatName result))])))"

definition seen_result_json :: "seen_result \<Rightarrow> json" where
  "seen_result_json r =
     JObj ([(''chatId'', JStr (sr_chatId r)), (''chatName'', JStr (sr_chatName r)),
            (''success'', JBool (sr_success r))]
           @ (case sr_error r of None \<Rightarrow> [] | Some e \<Rightarrow> [(''error'', JStr e)]))"

definition markAllReadHandler :: "collab \<Rightarrow> server \<Rightarrow> response io" where
  "markAllReadHandler cl srv =
     await (markAllChatsAsRead cl (whatsappClient srv))
       (\<lambda>results.
          let markedCount = length (filter sr_success results)
          in ret (json_reply (JObj [(''success'', JBool True),
                (''message'', JStr (''Marked '' @ showNat markedCount @ '' out of ''
                    @ showNat (length results) @ '' chats as read'')),
                (''markedCount'', JNum (int markedCount)),
                (''totalUnread'', JNum (int (length results))),
                (''details'', JArr (map seen_result_json results))])))"

subsection \<open>Send and search routes\<close>

definition sendMessageHandler :: "collab \<Rightarrow> server \<Rightarrow> request \<Rightarrow> response io" where
  "sendMessageHandler cl srv req =
     (if falsy (b_chatId req) \<or> falsy (b_message req) then
        ret \<lparr>status = 400,
             payload = JObj [(''success'', JBool False),
               (''error'', JStr ''Both chatId and message are required'')]\<rparr>
      else
        (let chatId = the (b_chatId req); content = the (b_message req) in
         await (getChatById cl (whatsappClient srv) chatId)
           (\<lambda>chat. await (sendMessage cl (whatsappClient srv) chatId content)
              (\<lambda>sentMessage. ret (json_reply (JObj [(''success'', JBool True),
                 (''message'', JStr ''Message sent successfully''),
                 (''chatId'', chatId), (''chatName'', JStr (name chat)),
                 (''messageId'', JStr (msg_id sentMessage)),
                 (''timestamp'', JNum (msg_timestamp sentMessage))]))))))"

definition sendMessageToSelfHandler :: "collab \<Rightarrow> server \<Rightarrow> request \<Rightarrow> response io" where
  "sendMessageToSelfHandler cl srv req =
     (if falsy (b_message req) then
        ret \<lparr>status = 400,
             payload = JObj [(''success'', JBool False), (''error'', JStr ''message is required'')]\<rparr>
      else
        await (sendMessageToSelf cl (whatsappClient srv) (the (b_message req)))
          (\<lambda>sentMessage. ret (json_reply (JObj [(''success'', JBool True),
             (''message'', JStr ''Message sent to self successfully''),
             (''messageId'', JStr (msg_id sentMessage)),
             (''timestamp'', JNum (msg_timestamp sentMessage))]))))"

text \<open>The formatted search results, with their \<open>matchCount\<close>.\<close>

record search_view =
  sv_chatId :: string
  sv_chatName :: string
  sv_isGroup :: bool
  sv_matchCount :: nat
  sv_matches :: "json list"

text \<open>
  \<open>const { query, limit = 50, chatId } = req.query\<close>: an absent \<open>limit\<close> is the number 50,
  which \<open>parseInt\<close> reads back from its decimal form; \<open>!query\<close> holds for an absent and
  for an empty string; \<open>chatId || null\<close>.
\<close>

definition searchHandler :: "lowering \<Rightarrow> collab \<Rightarrow> server \<Rightarrow> request \<Rightarrow> response io" where
  "searchHandler toLowerCase cl srv req =
     (case q_query req of
        None \<Rightarrow>
          ret \<lparr>status = 400,
               payload = JObj [(''success'', JBool False),
                 (''error'', JStr ''query parameter is required'')]\<rparr>
      | Some query \<Rightarrow>
          if query = [] then
            ret \<lparr>status = 400,
                 payload = JObj [(''success'', JBool False),
                   (''error'', JStr ''query parameter is required'')]\<rparr>
          else
            await (searchMessages toLowerCase cl (whatsappClient srv) query
                     (Some (parseInt (case q_limit req of None \<Rightarrow> ''50'' | Some l \<Rightarrow> l)))
                     (Some (case q_chatId req of
                          None \<Rightarrow> JNull
                        | Some c \<Rightarrow> if c \<noteq> [] then JStr c else JNull)))
              (\<lambda>results.
                 let formattedResults = map (\<lambda>chat.
                       \<lparr>sv_chatId = se_chatId chat, sv_chatName = se_chatName chat,
                         sv_isGroup = se_isGroup chat, sv_matchCount = length (se_matches chat),
                         sv_matches = map (\<lambda>m. JObj [
                             (''id'', JStr (msg_id m)), (''body'', JStr (body m)),
                             (''timestamp'', JNum (msg_timestamp m)),
                             (''fromMe'', JBool (fromMe m))]) (se_matches chat)\<rparr>) results;
                     totalMatches = foldl (\<lambda>sum chat. sum + sv_matchCount chat) 0 formattedResults
                 in ret (json_reply (JObj [(''success'', JBool True), (''query'', JStr query),
                       (''chatCount'', JNum (int (length formattedResults))),
                       (''totalMatches'', JNum (int totalMatches)),
                       (''data'', JArr (map (\<lambda>v. JObj [
                           (''chatId'', JStr (sv_chatId v)), (''chatName'', JStr (sv_chatName v)),
                           (''isGroup'', JBool (sv_isGroup v)),
                           (''matchCount'', JNum (int (sv_matchCount v))),
                           (''matches'', JArr (sv_matches v))]) formattedResults))]))))"

subsection \<open>Contact routes\<close>

definition contactHandler :: "collab \<Rightarrow> server \<Rightarrow> string \<Rightarrow> response io" where
  "contactHandler cl srv contactId =
     await (getContactById cl (whatsappClient srv) contactId)
       (\<lambda>c. ret (json_reply (JObj [(''success'', JBool True),
          (''data'', JObj [(''id'', JStr (contact_id c)), (''number'', JStr (number c)),
             (''name'', JStr (contact_name c)), (''pushname'', JStr (contact_pushname c)),
             (''isMyContact'', JBool (isMyContact c)), (''isBlocked'', JBool (isBlocked c)),
             (''isWAContact'', JBool (isWAContact c))])])))"

definition contactsHandler :: "collab \<Rightarrow> server \<Rightarrow> response io" where
  "contactsHandler cl srv =
     await (getContacts cl (whatsappClient srv))
       (\<lambda>contacts.
          let result = map (\<lambda>c. JObj [(''id'', JStr (contact_id c)), (''number'', JStr (number c)),
                (''name'', JStr (contact_name c)), (''pushname'', JStr (contact_pushname c)),
                (''isMyContact'', JBool (isMyContact c))]) contacts
          in ret (json_reply (JObj [(''success'', JBool True),
                (''count'', JNum (int (length result))), (''data'', JArr result)])))"

subsection \<open>The application\<close>

text \<open>
  The router: each registered route with its own middleware chain (\<open>requireClient\<close>, then
  the handler under \<open>asyncHandler\<close>), and the final 404 handler. It is reached when the
  global middleware has passed the request on.
\<close>

definition router :: "lowering \<Rightarrow> collab \<Rightarrow> server \<Rightarrow> route \<Rightarrow> request \<Rightarrow> call list
    \<Rightarrow> response \<times> call list" where
  "router toLowerCase cl srv r req =
     (case r of
        Root \<Rightarrow> (\<lambda>log. (rootHandler srv, log))
      | Health \<Rightarrow> (\<lambda>log. (healthHandler srv, log))
      | Qr \<Rightarrow> (\<lambda>log. (qrHandler srv, log))
      | ApiChats \<Rightarrow> requireClient srv (asyncHandler (chatsHandler cl srv))
      | ApiUnreadChats \<Rightarrow> requireClient srv (asyncHandler (unreadChatsHandler cl srv))
      | ApiUnreadMessages \<Rightarrow> requireClient srv (asyncHandler (unreadMessagesHandler cl srv))
      | ApiChatMessages chatId \<Rightarrow>
          decodeParam req
            (requireClient srv (asyncHandler (chatMessagesHandler cl srv chatId req)))
      | ApiChatUnread chatId \<Rightarrow>
          decodeParam req (requireClient srv (asyncHandler (chatUnreadHandler cl srv chatId)))
      | ApiMarkRead chatId \<Rightarrow>
          decodeParam req (requireClient srv (asyncHandler (markReadHandler cl srv chatId)))
      | ApiMarkAllRead \<Rightarrow> requireClient srv (asyncHandler (markAllReadHandler cl srv))
      | ApiSendMessage \<Rightarrow> requireClient srv (asyncHandler (sendMessageHandler cl srv req))
      | ApiSendMessageToSelf \<Rightarrow>
          requireClient srv (asyncHandler (sendMessageToSelfHandler cl srv req))
      | ApiSearch \<Rightarrow> requireClient srv (asyncHandler (searchHandler toLowerCase cl srv req))
      | ApiContact contactId \<Rightarrow>
          decodeParam req (requireClient srv (asyncHandler (contactHandler cl srv contactId)))
      | ApiContacts \<Rightarrow> requireClient srv (asyncHandler (contactsHandler cl srv))
      | Unmatched path \<Rightarrow> (\<lambda>log. (notFoundHandler path, log)))"

text \<open>
  The whole application: the global middleware of \<open>app.use\<close> runs before every route.
  A body that \<open>bodyParser\<close> cannot parse goes straight to the error-handling middleware;
  otherwise the request reaches the router.
\<close>

definition app :: "lowering \<Rightarrow> collab \<Rightarrow> server \<Rightarrow> route \<Rightarrow> request \<Rightarrow> call list
    \<Rightarrow> response \<times> call list" where
  "app toLowerCase cl srv r req log =
     (case bodyError req of
        Some err \<Rightarrow> (errorHandler err, log)
      | None \<Rightarrow> router toLowerCase cl srv r req log)"

text \<open>The routes with a path parameter.\<close>

fun hasParam :: "route \<Rightarrow> bool" where
  "hasParam (ApiChatMessages _) = True"
| "hasParam (ApiChatUnread _) = True"
| "hasParam (ApiMarkRead _) = True"
| "hasParam (ApiContact _) = True"
| "hasParam _ = False"

text \<open>The data-access routes: everything under \<open>/api\<close>.\<close>

fun dataRoute :: "route \<Rightarrow> bool" where
  "dataRoute Root = False"
| "dataRoute Health = False"
| "dataRoute Qr = False"
| "dataRoute (Unmatched _) = False"
| "dataRoute _ = True"

section \<open>The specification's descriptions, for comparison with the code\<close>

text \<open>
  "Filter to non-self-authored", and the entry the specification describes for an unread
  chat: its identity and the messages left after the filter.
\<close>

definition spec_nonSelf :: "msg list \<Rightarrow> msg list" where
  "spec_nonSelf ms = filter (\<lambda>m. \<not> fromMe m) ms"

definition spec_unreadEntry :: "chat \<Rightarrow> msg list \<Rightarrow> unread_entry" where
  "spec_unreadEntry chat ms =
     \<lparr>ue_chatId = chat_id chat, ue_chatName = name chat, ue_isGroup = isGroup chat,
      ue_unreadCount = length ms, ue_messages = ms\<rparr>"

text \<open>
  \<open>listAllUnreadMessages\<close>: for each unread chat, the fetched messages (\<open>fetched chat\<close>)
  filtered to non-self-authored; chats with zero resulting messages are skipped.
\<close>

definition spec_listAllUnreadMessages :: "(chat \<Rightarrow> msg list) \<Rightarrow> chat list \<Rightarrow> unread_entry list" where
  "spec_listAllUnreadMessages fetched chats =
     map (\<lambda>chat. spec_unreadEntry chat (spec_nonSelf (fetched chat)))
       (filter (\<lambda>chat. 0 < unreadCount chat \<and> spec_nonSelf (fetched chat) \<noteq> []) chats)"

text \<open>
  A case-insensitive substring match of the query against a message body, case being
  folded by the runtime's \<open>toLowerCase\<close>: the lower-cased query is a contiguous sublist of
  the lower-cased body.
\<close>

definition spec_containsCI :: "lowering \<Rightarrow> string \<Rightarrow> string \<Rightarrow> bool" where
  "spec_containsCI toLowerCase q b = sublist (toLowerCase q) (toLowerCase b)"

text \<open>The match the code makes: a case-insensitive substring match on a non-empty body.\<close>

definition spec_match :: "lowering \<Rightarrow> string \<Rightarrow> msg \<Rightarrow> bool" where
  "spec_match toLowerCase q m = (body m \<noteq> [] \<and> spec_containsCI toLowerCase q (body m))"

definition spec_searchEntry :: "lowering \<Rightarrow> string \<Rightarrow> chat \<Rightarrow> msg list \<Rightarrow> search_entry" where
  "spec_searchEntry toLowerCase q chat ms =
     \<lparr>se_chatId = chat_id chat, se_chatName = name chat, se_isGroup = isGroup chat,
      se_matches = filter (spec_match toLowerCase q) ms\<rparr>"

text \<open>\<open>searchMessages\<close> over all chats: only chats with at least one match.\<close>

definition spec_searchAll :: "lowering \<Rightarrow> string \<Rightarrow> (chat \<Rightarrow> msg list) \<Rightarrow> chat list
    \<Rightarrow> search_entry list" where
  "spec_searchAll toLowerCase q fetched chats =
     map (\<lambda>chat. spec_searchEntry toLowerCase q chat (fetched chat))
       (filter (\<lambda>chat. list_ex (spec_match toLowerCase q) (fetched chat)) chats)"

text \<open>\<open>markAllRead\<close>: one entry per unread chat, a success or a failure with the error's message.\<close>

definition spec_seenResult :: "collab \<Rightarrow> chat \<Rightarrow> seen_result" where
  "spec_seenResult cl chat =
     (case chat_sendSeen cl chat of
        Inr _ \<Rightarrow> \<lparr>sr_chatId = chat_id chat, sr_chatName = name chat,
                   sr_success = True, sr_error = None\<rparr>
      | Inl e \<Rightarrow> \<lparr>sr_chatId = chat_id chat, sr_chatName = name chat,
                   sr_success = False, sr_error = Some (message e)\<rparr>)"

section \<open>Example data\<close>

definition ex_msg :: "string \<Rightarrow> string \<Rightarrow> bool \<Rightarrow> msg" where
  "ex_msg i b self =
     \<lparr>msg_id = i, body = b, msg_type = ''chat'', msg_timestamp = 1700000000,
      msg_from = (if self then ''me@c.us'' else ''peer@c.us''),
      msg_to = (if self then ''peer@c.us'' else ''me@c.us''),
      fromMe = self, hasMedia = False, isForwarded = False, isStarred = False\<rparr>"

definition ex_chat :: "string \<Rightarrow> int \<Rightarrow> chat" where
  "ex_chat i n =
     \<lparr>chat_id = i, name = ''Chat '' @ i, isGroup = False, isReadOnly = False, unreadCount = n,
      chat_timestamp = 1700000000, archived = False, pinned = False, lastMessage = None\<rparr>"

text \<open>
  Four chats: A (2 unread; one message from the peer, one from self), B (0 unread),
  C (1 unread; its only message is from self, and its read receipt fails),
  D (3 unread; a media message with an empty body and a text).
\<close>

definition ex_chats :: "chat list" where
  "ex_chats = [ex_chat ''A'' 2, ex_chat ''B'' 0, ex_chat ''C'' 1, ex_chat ''D'' 3]"

definition ex_fetched :: "chat \<Rightarrow> msg list" where
  "ex_fetched chat =
     (if chat_id chat = ''A'' then [ex_msg ''a1'' ''Hello World'' False, ex_msg ''a2'' ''hello back'' True]
      else if chat_id chat = ''C'' then [ex_msg ''c1'' ''note to self'' True]
      else if chat_id chat = ''D'' then [ex_msg ''d1'' [] False, ex_msg ''d2'' ''lunch?'' False]
      else [])"

definition ex_collab :: collab where
  "ex_collab =
     \<lparr>client_getChats = Inr ex_chats,
      client_getChatById = (\<lambda>j. case j of
          JStr i \<Rightarrow> (case find (\<lambda>c. chat_id c = i) ex_chats of
                       Some c \<Rightarrow> Inr c | None \<Rightarrow> Inl (Error ''chat not found''))
        | _ \<Rightarrow> Inl (Error ''chat not found'')),
      chat_fetchMessages = (\<lambda>chat limit. Inr (ex_fetched chat)),
      chat_sendSeen = (\<lambda>chat. if chat_id chat = ''C'' then Inl (Error ''seen failed'') else Inr True),
      chat_sendMessage = (\<lambda>chat content. Inr (ex_msg ''out1'' ''sent'' True)),
      client_sendMessage = (\<lambda>number content. Inr (ex_msg ''out2'' ''sent'' True)),
      client_getContactById = (\<lambda>i. Inl (Error ''contact not found'')),
      client_getContacts = Inr []\<rparr>"

text \<open>The same collaborator with another chat list.\<close>

definition ex_collab_only :: "chat list \<Rightarrow> collab" where
  "ex_collab_only chats = ex_collab\<lparr>client_getChats := Inr chats\<rparr>"

text \<open>A collaborator with one chat E, whose only message is a media message without text.\<close>

definition ex_collab_media :: collab where
  "ex_collab_media =
     ex_collab\<lparr>client_getChats := Inr [ex_chat ''E'' 1],
       chat_fetchMessages := (\<lambda>chat limit. Inr [ex_msg ''e1'' [] False])\<rparr>"

definition ex_info :: client_info where
  "ex_info = \<lparr>pushname = ''Me'', wid_user = ''100'', wid_serialized = ''100@c.us'',
     platform = ''android'', me = JNull\<rparr>"

definition ex_ready :: adapter where
  "ex_ready = \<lparr>hasClient = True, isReady = True, clientInfo = Some ex_info, qrCode = None\<rparr>"

definition ex_pairing :: adapter where
  "ex_pairing = \<lparr>hasClient = True, isReady = False, clientInfo = None, qrCode = Some ''2@qr''\<rparr>"

definition ex_server_ready :: server where
  "ex_server_ready = \<lparr>whatsappClient = ex_ready, lastQRCode = None\<rparr>"

definition ex_server_pairing :: server where
  "ex_server_pairing = \<lparr>whatsappClient = ex_pairing, lastQRCode = Some ''2@qr''\<rparr>"

definition ex_request :: request where
  "ex_request =
     \<lparr>bodyError = None, paramError = None, q_limit = None, q_query = None, q_chatId = None,
      b_chatId = None, b_message = None\<rparr>"

text \<open>
  A lower-casing for the examples: the Unicode mapping on the characters up to U+00FF
  (A to Z, and U+00C0 to U+00DE without the multiplication sign U+00D7, which UTF-8
  writes as the byte C3 and a byte from 80 to 9E); other bytes are left as they are.
\<close>

fun ex_toLowerCase :: lowering where
  "ex_toLowerCase [] = []"
| "ex_toLowerCase [c] =
     (let n = (of_char c :: nat) in [if 65 \<le> n \<and> n \<le> 90 then char_of (n + 32) else c])"
| "ex_toLowerCase (c # d # s) =
     (let n = (of_char c :: nat); m = (of_char d :: nat) in
      if n = 195 \<and> 128 \<le> m \<and> m \<le> 158 \<and> m \<noteq> 151
      then c # char_of (m + 32) # ex_toLowerCase s
      else (if 65 \<le> n \<and> n \<le> 90 then char_of (n + 32) else c) # ex_toLowerCase (d # s))"

text \<open>A collaborator with one chat F, whose message reads ECOLE with an acute capital E.\<close>

definition ex_collab_accent :: collab where
  "ex_collab_accent =
     ex_collab\<lparr>client_getChats := Inr [ex_chat ''F'' 1],
       chat_fetchMessages :=
         (\<lambda>chat limit. Inr [ex_msg ''f1'' (CHR 0xC3 # CHR 0x89 # ''COLE'') False])\<rparr>"

text \<open>
  A chat that was marked as unread by hand: WhatsApp reports \<open>unreadCount = -1\<close> for it.
  Its one loaded message is from the peer.
\<close>

definition ex_collab_marked :: collab where
  "ex_collab_marked =
     ex_collab\<lparr>client_getChats := Inr [ex_chat ''G'' (- 1)],
       client_getChatById := (\<lambda>j. Inr (ex_chat ''G'' (- 1))),
       chat_fetchMessages := (\<lambda>chat limit. Inr [ex_msg ''g1'' ''ping'' False])\<rparr>"

text \<open>A request whose JSON body is cut short, as \<open>bodyParser.json()\<close> reports it.\<close>

definition ex_request_malformed :: request where
  "ex_request_malformed =
     ex_request\<lparr>bodyError := Some (Error ''Unexpected end of JSON input'')\<rparr>"

text \<open>A request whose path parameter is \<open>%E0%A4%A\<close>, which does not decode.\<close>

definition ex_request_undecodable :: request where
  "ex_request_undecodable =
     ex_request\<lparr>paramError := Some (Error ''Failed to decode param %E0%A4%A'')\<rparr>"

section \<open>Properties of the adapter\<close>

lemmas io_defs = ret_def throw_def await_def invoke_def

lemmas adapter_defs = getChats_def getChatById_def getUnreadChats_def getAllUnreadMessages_def
  getMessages_def getUnreadMessagesFromChat_def markChatAsRead_def markAllChatsAsRead_def
  sendMessage_def sendMessageToSelf_def searchMessages_def getContactById_def
  getContacts_def getUserInfo_def

subsection \<open>Facts about the example data\<close>

lemma ex_chat_sel:
  "chat_id (ex_chat i n) = i" "unreadCount (ex_chat i n) = n" "name (ex_chat i n) = ''Chat '' @ i"
  "isGroup (ex_chat i n) = False"
  by (simp_all add: ex_chat_def)

lemma ex_msg_sel:
  "fromMe (ex_msg i b s) = s" "body (ex_msg i b s) = b" "msg_id (ex_msg i b s) = i"
  by (simp_all add: ex_msg_def)

lemma ex_fetched_simps:
  "ex_fetched (ex_chat ''A'' n) = [ex_msg ''a1'' ''Hello World'' False, ex_msg ''a2'' ''hello back'' True]"
  "ex_fetched (ex_chat ''B'' n) = []"
  "ex_fetched (ex_chat ''C'' n) = [ex_msg ''c1'' ''note to self'' True]"
  "ex_fetched (ex_chat ''D'' n) = [ex_msg ''d1'' [] False, ex_msg ''d2'' ''lunch?'' False]"
  by (simp_all add: ex_fetched_def ex_chat_sel)

lemma ex_collab_sel:
  "client_getChats ex_collab = Inr ex_chats"
  "chat_fetchMessages ex_collab chat limit = Inr (ex_fetched chat)"
  "chat_sendSeen ex_collab chat =
     (if chat_id chat = ''C'' then Inl (Error ''seen failed'') else Inr True)"
  by (simp_all add: ex_collab_def)

lemma ex_collab_byId:
  "client_getChatById ex_collab (JStr ''A'') = Inr (ex_chat ''A'' 2)"
  "client_getChatById ex_collab (JStr ''B'') = Inr (ex_chat ''B'' 0)"
  "client_getChatById ex_collab (JStr ''zzz'') = Inl (Error ''chat not found'')"
  by (simp_all add: ex_collab_def ex_chats_def ex_chat_sel)

lemma ex_collab_only_sel:
  "client_getChats (ex_collab_only chats) = Inr chats"
  "client_getChatById (ex_collab_only chats) = client_getChatById ex_collab"
  "chat_fetchMessages (ex_collab_only chats) chat limit = Inr (ex_fetched chat)"
  by (simp_all add: ex_collab_only_def ex_collab_def)

lemma ex_ready_sel: "isReady ex_ready" "hasClient ex_ready" "clientInfo ex_ready = Some ex_info"
  by (simp_all add: ex_ready_def)

lemma ex_unread_calls:
  "map (\<lambda>chat. CFetchMessages chat (Fin (unreadCount chat)))
       (filter (\<lambda>chat. 0 < unreadCount chat) ex_chats) =
     [CFetchMessages (ex_chat ''A'' 2) (Fin 2), CFetchMessages (ex_chat ''C'' 1) (Fin 1),
      CFetchMessages (ex_chat ''D'' 3) (Fin 3)]"
  by (simp add: ex_chats_def ex_chat_sel)

subsection \<open>The loops, run to their end\<close>

lemma allUnreadLoop_skip:
  "\<not> 0 < unreadCount chat \<Longrightarrow>
     allUnreadLoop cl (chat # chats) acc log = allUnreadLoop cl chats acc log"
  by simp

lemma allUnreadLoop_throw:
  "0 < unreadCount chat \<Longrightarrow> chat_fetchMessages cl chat (Fin (unreadCount chat)) = Inl e \<Longrightarrow>
     allUnreadLoop cl (chat # chats) acc log =
       (Inl e, log @ [CFetchMessages chat (Fin (unreadCount chat))])"
  by simp

lemma allUnreadLoop_fetch:
  "0 < unreadCount chat \<Longrightarrow> chat_fetchMessages cl chat (Fin (unreadCount chat)) = Inr ms \<Longrightarrow>
     allUnreadLoop cl (chat # chats) acc log =
       allUnreadLoop cl chats
         (if spec_nonSelf ms = [] then acc else acc @ [spec_unreadEntry chat (spec_nonSelf ms)])
         (log @ [CFetchMessages chat (Fin (unreadCount chat))])"
  by (simp add: spec_nonSelf_def spec_unreadEntry_def Let_def)

lemma spec_listAllUnreadMessages_Cons:
  "spec_listAllUnreadMessages fetched (chat # chats) =
     (if 0 < unreadCount chat \<and> spec_nonSelf (fetched chat) \<noteq> []
      then [spec_unreadEntry chat (spec_nonSelf (fetched chat))] else [])
     @ spec_listAllUnreadMessages fetched chats"
  by (simp add: spec_listAllUnreadMessages_def)

lemma spec_listAllUnreadMessages_Nil: "spec_listAllUnreadMessages fetched [] = []"
  by (simp add: spec_listAllUnreadMessages_def)

lemma ex_listAllUnreadMessages:
  "spec_listAllUnreadMessages ex_fetched ex_chats =
     [spec_unreadEntry (ex_chat ''A'' 2) [ex_msg ''a1'' ''Hello World'' False],
      spec_unreadEntry (ex_chat ''D'' 3) [ex_msg ''d1'' [] False, ex_msg ''d2'' ''lunch?'' False]]"
  by (simp add: ex_chats_def spec_listAllUnreadMessages_Cons spec_listAllUnreadMessages_Nil
      ex_fetched_simps ex_chat_sel ex_msg_sel spec_nonSelf_def)

lemma allUnreadLoop_run:
  assumes "\<forall>chat\<in>set chats. 0 < unreadCount chat \<longrightarrow>
             chat_fetchMessages cl chat (Fin (unreadCount chat)) = Inr (fetched chat)"
  shows "allUnreadLoop cl chats acc log =
           (Inr (acc @ spec_listAllUnreadMessages fetched chats),
            log @ map (\<lambda>chat. CFetchMessages chat (Fin (unreadCount chat)))
                    (filter (\<lambda>chat. 0 < unreadCount chat) chats))"
  using assms
proof (induction chats arbitrary: acc log)
  case Nil
  show ?case by (simp add: spec_listAllUnreadMessages_def)
next
  case (Cons chat chats)
  have rest: "\<forall>c\<in>set chats. 0 < unreadCount c \<longrightarrow>
      chat_fetchMessages cl c (Fin (unreadCount c)) = Inr (fetched c)"
    using Cons.prems by simp
  note IH = Cons.IH[OF rest]
  show ?case
  proof (cases "0 < unreadCount chat")
    case False
    then show ?thesis
      by (simp only: allUnreadLoop_skip[OF False] IH spec_listAllUnreadMessages_Cons) simp
  next
    case True
    then have f: "chat_fetchMessages cl chat (Fin (unreadCount chat)) = Inr (fetched chat)"
      using Cons.prems by simp
    show ?thesis
      by (simp only: allUnreadLoop_fetch[OF True f] IH spec_listAllUnreadMessages_Cons)
        (simp add: True)
  qed
qed

lemma allUnreadLoop_inv:
  assumes "allUnreadLoop cl chats acc log = (Inr res, log')"
    and "\<forall>e\<in>set acc. P e"
    and "\<And>chat ms. P (spec_unreadEntry chat (spec_nonSelf ms))"
  shows "\<forall>e\<in>set res. P e"
  using assms(1,2)
proof (induction chats arbitrary: acc log)
  case Nil
  then show ?case by simp
next
  case (Cons chat chats)
  show ?case
  proof (cases "0 < unreadCount chat")
    case False
    from Cons.prems(1) have "allUnreadLoop cl chats acc log = (Inr res, log')"
      by (simp only: allUnreadLoop_skip[OF False])
    then show ?thesis using Cons.prems(2) by (rule Cons.IH)
  next
    case True
    show ?thesis
    proof (cases "chat_fetchMessages cl chat (Fin (unreadCount chat))")
      case (Inl e)
      from Cons.prems(1) show ?thesis
        by (simp only: allUnreadLoop_throw[OF True Inl]) simp
    next
      case (Inr ms)
      let ?acc = "if spec_nonSelf ms = [] then acc
                  else acc @ [spec_unreadEntry chat (spec_nonSelf ms)]"
      from Cons.prems(1)
      have run: "allUnreadLoop cl chats ?acc (log @ [CFetchMessages chat (Fin (unreadCount chat))])
                   = (Inr res, log')"
        by (simp only: allUnreadLoop_fetch[OF True Inr])
      have "\<forall>e\<in>set ?acc. P e"
        using Cons.prems(2) assms(3)[of chat ms] by simp
      with run show ?thesis by (rule Cons.IH)
    qed
  qed
qed

lemma markAllLoop_run:
  "markAllLoop cl chats results log =
     (results @ map (spec_seenResult cl) chats, log @ map CSendSeen chats)"
proof (induction chats arbitrary: results log)
  case Nil
  show ?case by simp
next
  case (Cons chat chats)
  show ?case
    by (cases "chat_sendSeen cl chat") (simp_all add: Cons.IH spec_seenResult_def)
qed

lemma includes_str_sublist: "includes_str s q = sublist q s"
  by (induction s) (simp_all add: sublist_Cons_right)

lemma isMatch_spec: "isMatch toLowerCase q = spec_match toLowerCase q"
  by (rule ext)
    (simp add: isMatch_def spec_match_def spec_containsCI_def includes_str_sublist)

subsection \<open>Readiness\<close>

text \<open>
  C6. Every adapter operation other than initialization fails with the "not ready" error
  when the readiness flag is false, by its own check or through \<open>getChats\<close> /
  \<open>getChatById\<close>; no collaborator call is made.
\<close>

theorem not_ready_all_operations:
  assumes "\<not> isReady a"
  shows "getChats cl a log = (Inl notReady, log)
    \<and> getChatById cl a chatId log = (Inl notReady, log)
    \<and> getUnreadChats cl a log = (Inl notReady, log)
    \<and> getAllUnreadMessages cl a log = (Inl notReady, log)
    \<and> getMessages cl a chatId limit_opt log = (Inl notReady, log)
    \<and> getUnreadMessagesFromChat cl a chatId log = (Inl notReady, log)
    \<and> markChatAsRead cl a chatId log = (Inl notReady, log)
    \<and> markAllChatsAsRead cl a log = (Inl notReady, log)
    \<and> sendMessage cl a chatId content log = (Inl notReady, log)
    \<and> sendMessageToSelf cl a content log = (Inl notReady, log)
    \<and> searchMessages toLowerCase cl a query limit_opt chatId_opt log = (Inl notReady, log)
    \<and> getContactById cl a contactId log = (Inl notReady, log)
    \<and> getContacts cl a log = (Inl notReady, log)
    \<and> getUserInfo a log = (Inl notReady, log)"
  using assms
  by (simp add: adapter_defs io_defs Let_def)

theorem not_ready_all_operations_witness:
  "getChats ex_collab ex_pairing [] = (Inl notReady, [])
    \<and> getChatById ex_collab ex_pairing (JStr ''A'') [] = (Inl notReady, [])
    \<and> getUnreadChats ex_collab ex_pairing [] = (Inl notReady, [])
    \<and> getAllUnreadMessages ex_collab ex_pairing [] = (Inl notReady, [])
    \<and> getMessages ex_collab ex_pairing (JStr ''A'') None [] = (Inl notReady, [])
    \<and> getUnreadMessagesFromChat ex_collab ex_pairing (JStr ''A'') [] = (Inl notReady, [])
    \<and> markChatAsRead ex_collab ex_pairing (JStr ''A'') [] = (Inl notReady, [])
    \<and> markAllChatsAsRead ex_collab ex_pairing [] = (Inl notReady, [])
    \<and> sendMessage ex_collab ex_pairing (JStr ''A'') (JStr ''hi'') [] = (Inl notReady, [])
    \<and> sendMessageToSelf ex_collab ex_pairing (JStr ''hi'') [] = (Inl notReady, [])
    \<and> searchMessages ex_toLowerCase ex_collab ex_pairing ''abc'' None None [] = (Inl notReady, [])
    \<and> getContactById ex_collab ex_pairing ''100@c.us'' [] = (Inl notReady, [])
    \<and> getContacts ex_collab ex_pairing [] = (Inl notReady, [])
    \<and> getUserInfo ex_pairing [] = (Inl notReady, [])"
proof -
  have "\<not> isReady ex_pairing" by (simp add: ex_pairing_def)
  then show ?thesis
    by (rule not_ready_all_operations)
qed

subsection \<open>Unread messages\<close>

text \<open>
  C1. On a ready adapter whose collaborator returns \<open>chats\<close> and answers every fetch for
  an unread chat, \<open>getAllUnreadMessages\<close> fetches exactly the chats with
  \<open>unreadCount > 0\<close>, each with \<open>limit = unreadCount\<close>, and returns, in order, one entry
  for each of them whose fetched messages are not all from self; the entry's messages are
  the fetched ones with the self-authored messages removed. So no message of the result
  is from self, and no entry is empty.
\<close>

theorem getAllUnreadMessages_spec:
  assumes "isReady a" and "hasClient a"
    and "client_getChats cl = Inr chats"
    and "\<forall>chat\<in>set chats. 0 < unreadCount chat \<longrightarrow>
           chat_fetchMessages cl chat (Fin (unreadCount chat)) = Inr (fetched chat)"
  shows "\<exists>res. getAllUnreadMessages cl a log =
           (Inr res,
            log @ CGetChats # map (\<lambda>chat. CFetchMessages chat (Fin (unreadCount chat)))
                                (filter (\<lambda>chat. 0 < unreadCount chat) chats))
         \<and> res = spec_listAllUnreadMessages fetched chats
         \<and> (\<forall>e\<in>set res. ue_messages e \<noteq> [] \<and> (\<forall>m\<in>set (ue_messages e). \<not> fromMe m))"
proof -
  let ?log' = "log @ CGetChats # map (\<lambda>chat. CFetchMessages chat (Fin (unreadCount chat)))
                                (filter (\<lambda>chat. 0 < unreadCount chat) chats)"
  have run: "getAllUnreadMessages cl a log = (Inr (spec_listAllUnreadMessages fetched chats), ?log')"
    using assms(1-3) allUnreadLoop_run[OF assms(4), of "[]" "log @ [CGetChats]"]
    by (simp add: getAllUnreadMessages_def getChats_def io_defs)
  have "\<forall>e\<in>set (spec_listAllUnreadMessages fetched chats).
          ue_messages e \<noteq> [] \<and> (\<forall>m\<in>set (ue_messages e). \<not> fromMe m)"
    by (auto simp: spec_listAllUnreadMessages_def spec_unreadEntry_def spec_nonSelf_def)
  with run show ?thesis by simp
qed

theorem getAllUnreadMessages_spec_witness:
  "getAllUnreadMessages ex_collab ex_ready [] =
     (Inr [spec_unreadEntry (ex_chat ''A'' 2) [ex_msg ''a1'' ''Hello World'' False],
           spec_unreadEntry (ex_chat ''D'' 3)
             [ex_msg ''d1'' [] False, ex_msg ''d2'' ''lunch?'' False]],
      [CGetChats, CFetchMessages (ex_chat ''A'' 2) (Fin 2),
       CFetchMessages (ex_chat ''C'' 1) (Fin 1), CFetchMessages (ex_chat ''D'' 3) (Fin 3)])"
proof -
  have h: "\<forall>chat\<in>set ex_chats. 0 < unreadCount chat \<longrightarrow>
      chat_fetchMessages ex_collab chat (Fin (unreadCount chat)) = Inr (ex_fetched chat)"
    by (simp add: ex_collab_sel)
  from getAllUnreadMessages_spec[OF ex_ready_sel(1,2) ex_collab_sel(1) h, of "[]"]
  show ?thesis
    by (simp add: ex_listAllUnreadMessages ex_unread_calls)
qed

lemma getAllUnreadMessages_Inr:
  assumes "getAllUnreadMessages cl a log = (Inr res, log')"
  shows "\<exists>chats. client_getChats cl = Inr chats \<and>
           allUnreadLoop cl chats [] (log @ [CGetChats]) = (Inr res, log')"
proof (cases "client_getChats cl")
  case (Inl e)
  with assms show ?thesis
    by (simp add: getAllUnreadMessages_def getChats_def io_defs split: if_splits)
next
  case (Inr chats)
  with assms show ?thesis
    by (simp add: getAllUnreadMessages_def getChats_def io_defs split: if_splits)
qed

lemma ex_getAllUnreadMessages:
  "getAllUnreadMessages ex_collab ex_ready [] =
     (Inr (spec_listAllUnreadMessages ex_fetched ex_chats),
      CGetChats # map (\<lambda>chat. CFetchMessages chat (Fin (unreadCount chat)))
                    (filter (\<lambda>chat. 0 < unreadCount chat) ex_chats))"
proof -
  have "allUnreadLoop ex_collab ex_chats [] [CGetChats] =
     (Inr ([] @ spec_listAllUnreadMessages ex_fetched ex_chats),
      [CGetChats] @ map (\<lambda>chat. CFetchMessages chat (Fin (unreadCount chat)))
                    (filter (\<lambda>chat. 0 < unreadCount chat) ex_chats))"
    by (rule allUnreadLoop_run) (simp add: ex_collab_sel)
  then show ?thesis
    by (simp add: getAllUnreadMessages_def getChats_def io_defs ex_ready_sel ex_collab_sel)
qed

lemma allUnreadLoop_fetches:
  assumes "allUnreadLoop cl chats acc log = (Inr res, log')"
  shows "\<forall>chat\<in>set chats. 0 < unreadCount chat \<longrightarrow>
           (\<exists>ms. chat_fetchMessages cl chat (Fin (unreadCount chat)) = Inr ms)"
  using assms
proof (induction chats arbitrary: acc log)
  case Nil
  show ?case by simp
next
  case (Cons chat chats)
  show ?case
  proof (cases "0 < unreadCount chat")
    case False
    from Cons.prems have "allUnreadLoop cl chats acc log = (Inr res, log')"
      by (simp only: allUnreadLoop_skip[OF False])
    from Cons.IH[OF this] False show ?thesis by simp
  next
    case True
    show ?thesis
    proof (cases "chat_fetchMessages cl chat (Fin (unreadCount chat))")
      case (Inl e)
      from Cons.prems show ?thesis
        by (simp only: allUnreadLoop_throw[OF True Inl]) simp
    next
      case (Inr ms)
      from Cons.prems
      have "allUnreadLoop cl chats
              (if spec_nonSelf ms = [] then acc else acc @ [spec_unreadEntry chat (spec_nonSelf ms)])
              (log @ [CFetchMessages chat (Fin (unreadCount chat))]) = (Inr res, log')"
        by (simp only: allUnreadLoop_fetch[OF True Inr])
      from Cons.IH[OF this] Inr show ?thesis by simp
    qed
  qed
qed

lemma getAllUnreadMessages_returns:
  assumes "getAllUnreadMessages cl a log = (Inr res, log')"
  shows "\<exists>chats fetched. client_getChats cl = Inr chats
           \<and> (\<forall>chat\<in>set chats. 0 < unreadCount chat \<longrightarrow>
                 chat_fetchMessages cl chat (Fin (unreadCount chat)) = Inr (fetched chat))
           \<and> res = spec_listAllUnreadMessages fetched chats"
proof -
  from getAllUnreadMessages_Inr[OF assms] obtain chats where
    chats: "client_getChats cl = Inr chats" and
    loop: "allUnreadLoop cl chats [] (log @ [CGetChats]) = (Inr res, log')" by blast
  define fetched where
    "fetched = (\<lambda>chat. case chat_fetchMessages cl chat (Fin (unreadCount chat)) of
                  Inl _ \<Rightarrow> [] | Inr ms \<Rightarrow> ms)"
  have f: "\<forall>chat\<in>set chats. 0 < unreadCount chat \<longrightarrow>
      chat_fetchMessages cl chat (Fin (unreadCount chat)) = Inr (fetched chat)"
  proof (intro ballI impI)
    fix chat assume "chat \<in> set chats" and "0 < unreadCount chat"
    with allUnreadLoop_fetches[OF loop]
    obtain ms where "chat_fetchMessages cl chat (Fin (unreadCount chat)) = Inr ms" by blast
    then show "chat_fetchMessages cl chat (Fin (unreadCount chat)) = Inr (fetched chat)"
      by (simp add: fetched_def)
  qed
  from allUnreadLoop_run[OF f, of "[]" "log @ [CGetChats]"] loop
  have "res = spec_listAllUnreadMessages fetched chats" by simp
  with chats f show ?thesis by blast
qed

subsection \<open>The count an entry reports\<close>

text \<open>
  C9. Whenever \<open>getAllUnreadMessages\<close> returns, every entry of the result belongs to a chat
  of the collaborator's list with \<open>unreadCount > 0\<close>; its messages are the messages fetched
  for that chat with the self-authored ones removed, and its \<open>unreadCount\<close> is the number
  of messages left, the length of the entry's messages. That count can be strictly less
  than the chat's own \<open>unreadCount\<close>: for chat A of the example, 2 unread and 2 messages
  fetched, one of them from self, the entry reports 1.
\<close>

theorem unreadCount_is_filtered_length:
  assumes "getAllUnreadMessages cl a log = (Inr res, log')"
  shows "(\<exists>chats. client_getChats cl = Inr chats
            \<and> (\<forall>e\<in>set res. \<exists>chat\<in>set chats. \<exists>messages.
                  0 < unreadCount chat
                  \<and> chat_fetchMessages cl chat (Fin (unreadCount chat)) = Inr messages
                  \<and> ue_chatId e = chat_id chat
                  \<and> ue_messages e = filter (\<lambda>m. \<not> fromMe m) messages
                  \<and> ue_unreadCount e = length (filter (\<lambda>m. \<not> fromMe m) messages)
                  \<and> ue_unreadCount e = length (ue_messages e)))
    \<and> (\<exists>res0 log0. getAllUnreadMessages ex_collab ex_ready [] = (Inr res0, log0)
          \<and> (\<exists>e\<in>set res0. \<exists>chat\<in>set ex_chats. \<exists>messages.
                chat_fetchMessages ex_collab chat (Fin (unreadCount chat)) = Inr messages
                \<and> int (length messages) = unreadCount chat
                \<and> ue_chatId e = chat_id chat
                \<and> ue_messages e = filter (\<lambda>m. \<not> fromMe m) messages
                \<and> int (ue_unreadCount e) < unreadCount chat))"
proof
  from getAllUnreadMessages_returns[OF assms] obtain chats fetched where
    chats: "client_getChats cl = Inr chats" and
    f: "\<forall>chat\<in>set chats. 0 < unreadCount chat \<longrightarrow>
          chat_fetchMessages cl chat (Fin (unreadCount chat)) = Inr (fetched chat)" and
    res: "res = spec_listAllUnreadMessages fetched chats" by blast
  have "\<forall>e\<in>set res. \<exists>chat\<in>set chats. \<exists>messages.
                  0 < unreadCount chat
                  \<and> chat_fetchMessages cl chat (Fin (unreadCount chat)) = Inr messages
                  \<and> ue_chatId e = chat_id chat
                  \<and> ue_messages e = filter (\<lambda>m. \<not> fromMe m) messages
                  \<and> ue_unreadCount e = length (filter (\<lambda>m. \<not> fromMe m) messages)
                  \<and> ue_unreadCount e = length (ue_messages e)"
  proof
    fix e assume "e \<in> set res"
    with res obtain chat where c: "chat \<in> set chats" "0 < unreadCount chat"
      and e: "e = spec_unreadEntry chat (spec_nonSelf (fetched chat))"
      by (auto simp: spec_listAllUnreadMessages_def)
    from f c have "chat_fetchMessages cl chat (Fin (unreadCount chat)) = Inr (fetched chat)"
      by blast
    with c e show "\<exists>chat\<in>set chats. \<exists>messages.
                  0 < unreadCount chat
                  \<and> chat_fetchMessages cl chat (Fin (unreadCount chat)) = Inr messages
                  \<and> ue_chatId e = chat_id chat
                  \<and> ue_messages e = filter (\<lambda>m. \<not> fromMe m) messages
                  \<and> ue_unreadCount e = length (filter (\<lambda>m. \<not> fromMe m) messages)
                  \<and> ue_unreadCount e = length (ue_messages e)"
      by (intro bexI[of _ chat] exI[of _ "fetched chat"])
        (simp_all add: spec_unreadEntry_def spec_nonSelf_def)
  qed
  with chats show "\<exists>chats. client_getChats cl = Inr chats
            \<and> (\<forall>e\<in>set res. \<exists>chat\<in>set chats. \<exists>messages.
                  0 < unreadCount chat
                  \<and> chat_fetchMessages cl chat (Fin (unreadCount chat)) = Inr messages
                  \<and> ue_chatId e = chat_id chat
                  \<and> ue_messages e = filter (\<lambda>m. \<not> fromMe m) messages
                  \<and> ue_unreadCount e = length (filter (\<lambda>m. \<not> fromMe m) messages)
                  \<and> ue_unreadCount e = length (ue_messages e))"
    by blast
next
  let ?e = "spec_unreadEntry (ex_chat ''A'' 2) [ex_msg ''a1'' ''Hello World'' False]"
  let ?ms = "[ex_msg ''a1'' ''Hello World'' False, ex_msg ''a2'' ''hello back'' True]"
  have m: "?e \<in> set (spec_listAllUnreadMessages ex_fetched ex_chats)"
    by (simp add: ex_listAllUnreadMessages)
  have c: "ex_chat ''A'' 2 \<in> set ex_chats" by (simp add: ex_chats_def)
  have p: "chat_fetchMessages ex_collab (ex_chat ''A'' 2) (Fin (unreadCount (ex_chat ''A'' 2))) = Inr ?ms
      \<and> int (length ?ms) = unreadCount (ex_chat ''A'' 2)
      \<and> ue_chatId ?e = chat_id (ex_chat ''A'' 2)
      \<and> ue_messages ?e = filter (\<lambda>m. \<not> fromMe m) ?ms
      \<and> int (ue_unreadCount ?e) < unreadCount (ex_chat ''A'' 2)"
    by (simp add: ex_collab_sel ex_fetched_simps ex_chat_sel ex_msg_sel spec_unreadEntry_def)
  from m c p ex_getAllUnreadMessages
  show "\<exists>res0 log0. getAllUnreadMessages ex_collab ex_ready [] = (Inr res0, log0)
          \<and> (\<exists>e\<in>set res0. \<exists>chat\<in>set ex_chats. \<exists>messages.
                chat_fetchMessages ex_collab chat (Fin (unreadCount chat)) = Inr messages
                \<and> int (length messages) = unreadCount chat
                \<and> ue_chatId e = chat_id chat
                \<and> ue_messages e = filter (\<lambda>m. \<not> fromMe m) messages
                \<and> int (ue_unreadCount e) < unreadCount chat)"
    by blast
qed

theorem unreadCount_is_filtered_length_witness:
  "getAllUnreadMessages ex_collab ex_ready [] =
     (Inr [\<lparr>ue_chatId = ''A'', ue_chatName = ''Chat A'', ue_isGroup = False, ue_unreadCount = 1,
            ue_messages = [ex_msg ''a1'' ''Hello World'' False]\<rparr>,
           \<lparr>ue_chatId = ''D'', ue_chatName = ''Chat D'', ue_isGroup = False, ue_unreadCount = 2,
            ue_messages = [ex_msg ''d1'' [] False, ex_msg ''d2'' ''lunch?'' False]\<rparr>],
      [CGetChats, CFetchMessages (ex_chat ''A'' 2) (Fin 2),
       CFetchMessages (ex_chat ''C'' 1) (Fin 1), CFetchMessages (ex_chat ''D'' 3) (Fin 3)])
   \<and> (\<exists>chat\<in>set ex_chats. \<exists>messages.
         0 < unreadCount chat
         \<and> chat_fetchMessages ex_collab chat (Fin (unreadCount chat)) = Inr messages
         \<and> chat_id chat = ''A''
         \<and> filter (\<lambda>m. \<not> fromMe m) messages = [ex_msg ''a1'' ''Hello World'' False]
         \<and> length (filter (\<lambda>m. \<not> fromMe m) messages) = 1)"
proof -
  let ?eA = "\<lparr>ue_chatId = ''A'', ue_chatName = ''Chat A'', ue_isGroup = False, ue_unreadCount = 1,
            ue_messages = [ex_msg ''a1'' ''Hello World'' False]\<rparr>"
  let ?eD = "\<lparr>ue_chatId = ''D'', ue_chatName = ''Chat D'', ue_isGroup = False, ue_unreadCount = 2,
            ue_messages = [ex_msg ''d1'' [] False, ex_msg ''d2'' ''lunch?'' False]\<rparr>"
  have run: "getAllUnreadMessages ex_collab ex_ready [] =
     (Inr [?eA, ?eD],
      [CGetChats, CFetchMessages (ex_chat ''A'' 2) (Fin 2),
       CFetchMessages (ex_chat ''C'' 1) (Fin 1), CFetchMessages (ex_chat ''D'' 3) (Fin 3)])"
    by (simp add: ex_getAllUnreadMessages ex_listAllUnreadMessages ex_unread_calls
        spec_unreadEntry_def ex_chat_sel)
  from unreadCount_is_filtered_length[OF run] obtain chats where
    chats: "client_getChats ex_collab = Inr chats" and
    all: "\<forall>e\<in>set [?eA, ?eD]. \<exists>chat\<in>set chats. \<exists>messages.
                  0 < unreadCount chat
                  \<and> chat_fetchMessages ex_collab chat (Fin (unreadCount chat)) = Inr messages
                  \<and> ue_chatId e = chat_id chat
                  \<and> ue_messages e = filter (\<lambda>m. \<not> fromMe m) messages
                  \<and> ue_unreadCount e = length (filter (\<lambda>m. \<not> fromMe m) messages)
                  \<and> ue_unreadCount e = length (ue_messages e)"
    by blast
  from chats have cs: "chats = ex_chats" by (simp add: ex_collab_sel)
  from all have "\<exists>chat\<in>set chats. \<exists>messages.
                  0 < unreadCount chat
                  \<and> chat_fetchMessages ex_collab chat (Fin (unreadCount chat)) = Inr messages
                  \<and> ue_chatId ?eA = chat_id chat
                  \<and> ue_messages ?eA = filter (\<lambda>m. \<not> fromMe m) messages
                  \<and> ue_unreadCount ?eA = length (filter (\<lambda>m. \<not> fromMe m) messages)"
    by simp
  then obtain chat messages where c: "chat \<in> set chats"
    and p: "0 < unreadCount chat"
      "chat_fetchMessages ex_collab chat (Fin (unreadCount chat)) = Inr messages"
    and i: "ue_chatId ?eA = chat_id chat"
    and m: "ue_messages ?eA = filter (\<lambda>m. \<not> fromMe m) messages"
    and n: "ue_unreadCount ?eA = length (filter (\<lambda>m. \<not> fromMe m) messages)"
    by blast
  have i': "chat_id chat = ''A''" by (simp add: i[symmetric])
  have m': "filter (\<lambda>m. \<not> fromMe m) messages = [ex_msg ''a1'' ''Hello World'' False]"
    by (simp add: m[symmetric])
  have n': "length (filter (\<lambda>m. \<not> fromMe m) messages) = 1" by (simp add: n[symmetric])
  from c cs have "chat \<in> set ex_chats" by simp
  with p i' m' n' have "\<exists>chat\<in>set ex_chats. \<exists>messages.
         0 < unreadCount chat
         \<and> chat_fetchMessages ex_collab chat (Fin (unreadCount chat)) = Inr messages
         \<and> chat_id chat = ''A''
         \<and> filter (\<lambda>m. \<not> fromMe m) messages = [ex_msg ''a1'' ''Hello World'' False]
         \<and> length (filter (\<lambda>m. \<not> fromMe m) messages) = 1"
    by blast
  with run show ?thesis by blast
qed

subsection \<open>Unread messages of one chat\<close>

lemma getChatById_run:
  "isReady a \<Longrightarrow> hasClient a \<Longrightarrow>
     getChatById cl a chatId log = (client_getChatById cl chatId, log @ [CGetChatById chatId])"
  by (simp add: getChatById_def io_defs)

lemma getChats_run:
  "isReady a \<Longrightarrow> hasClient a \<Longrightarrow> getChats cl a log = (client_getChats cl, log @ [CGetChats])"
  by (simp add: getChats_def io_defs)

text \<open>
  What \<open>getUnreadMessagesFromChat\<close> does on a ready adapter for a chat the collaborator
  resolves: nothing is fetched at \<open>unreadCount = 0\<close>; at any other count the chat is
  fetched with \<open>limit = unreadCount\<close> and the messages not from self are returned. For
  \<open>unreadCount \<ge> 0\<close> this is what \<open>getAllUnreadMessages\<close> does with that chat.
\<close>

lemma getUnreadMessagesFromChat_cases:
  assumes "isReady a" and "hasClient a" and "client_getChatById cl chatId = Inr chat"
  shows "getUnreadMessagesFromChat cl a chatId log =
           (if unreadCount chat = 0 then (Inr [], log @ [CGetChatById chatId])
            else (map_sum id spec_nonSelf (chat_fetchMessages cl chat (Fin (unreadCount chat))),
                  log @ [CGetChatById chatId, CFetchMessages chat (Fin (unreadCount chat))]))
    \<and> (0 \<le> unreadCount chat \<and> client_getChats cl = Inr [chat] \<longrightarrow>
          fst (getAllUnreadMessages cl a log) =
            map_sum id (\<lambda>ms. if ms = [] then [] else [spec_unreadEntry chat ms])
              (fst (getUnreadMessagesFromChat cl a chatId log)))"
proof -
  have g: "await (getChatById cl a chatId) f log = f chat (log @ [CGetChatById chatId])"
    for f :: "chat \<Rightarrow> msg list io"
    using assms by (simp add: getChatById_run await_def)
  have one: "getUnreadMessagesFromChat cl a chatId log =
           (if unreadCount chat = 0 then (Inr [], log @ [CGetChatById chatId])
            else (map_sum id spec_nonSelf (chat_fetchMessages cl chat (Fin (unreadCount chat))),
                  log @ [CGetChatById chatId, CFetchMessages chat (Fin (unreadCount chat))]))"
    unfolding getUnreadMessagesFromChat_def g
    by (cases "chat_fetchMessages cl chat (Fin (unreadCount chat))")
      (simp_all add: io_defs spec_nonSelf_def)
  have two: "fst (getAllUnreadMessages cl a log) =
            map_sum id (\<lambda>ms. if ms = [] then [] else [spec_unreadEntry chat ms])
              (fst (getUnreadMessagesFromChat cl a chatId log))"
    if nn: "0 \<le> unreadCount chat" and cs: "client_getChats cl = Inr [chat]"
  proof -
    have gc: "await (getChats cl a) f log = f [chat] (log @ [CGetChats])"
      for f :: "chat list \<Rightarrow> unread_entry list io"
      using assms(1,2) cs by (simp add: getChats_run await_def)
    show ?thesis
    proof (cases "unreadCount chat = 0")
      case True
      then show ?thesis
        unfolding one getAllUnreadMessages_def gc by simp
    next
      case False
      with nn have pos: "0 < unreadCount chat" by simp
      show ?thesis
      proof (cases "chat_fetchMessages cl chat (Fin (unreadCount chat))")
        case (Inl e)
        show ?thesis
          unfolding one getAllUnreadMessages_def gc allUnreadLoop_throw[OF pos Inl]
          using False Inl by simp
      next
        case (Inr ms)
        show ?thesis
          unfolding one getAllUnreadMessages_def gc allUnreadLoop_fetch[OF pos Inr]
          using False Inr by simp
      qed
    qed
  qed
  from one two show ?thesis by blast
qed

text \<open>
  C8. \<open>getUnreadMessagesFromChat\<close> is to apply to one chat the per-chat logic of
  \<open>getAllUnreadMessages\<close>: nothing for a chat that is not unread, otherwise the messages
  fetched with \<open>limit = unreadCount\<close> that are not from self. The code tests
  \<open>unreadCount === 0\<close> where \<open>getAllUnreadMessages\<close> tests \<open>unreadCount > 0\<close>, and the two
  part on a negative count. For chat G, marked as unread by hand (\<open>unreadCount = -1\<close>),
  \<open>getUnreadMessagesFromChat\<close> fetches with \<open>limit = -1\<close> and returns the peer's message,
  while \<open>getAllUnreadMessages\<close> skips the chat and returns nothing.
\<close>

theorem getUnreadMessagesFromChat_negative_count:
  "getUnreadMessagesFromChat ex_collab_marked ex_ready (JStr ''G'') [] =
     (Inr [ex_msg ''g1'' ''ping'' False],
      [CGetChatById (JStr ''G''), CFetchMessages (ex_chat ''G'' (- 1)) (Fin (- 1))])
   \<and> getAllUnreadMessages ex_collab_marked ex_ready [] = (Inr [], [CGetChats])"
proof -
  have g: "client_getChatById ex_collab_marked (JStr ''G'') = Inr (ex_chat ''G'' (- 1))"
    and f: "chat_fetchMessages ex_collab_marked c l = Inr [ex_msg ''g1'' ''ping'' False]"
    and cs: "client_getChats ex_collab_marked = Inr [ex_chat ''G'' (- 1)]" for c l
    by (simp_all add: ex_collab_marked_def)
  have a: "getUnreadMessagesFromChat ex_collab_marked ex_ready (JStr ''G'') [] =
     (Inr [ex_msg ''g1'' ''ping'' False],
      [CGetChatById (JStr ''G''), CFetchMessages (ex_chat ''G'' (- 1)) (Fin (- 1))])"
    by (simp add: getUnreadMessagesFromChat_def getChatById_run ex_ready_sel await_def g f
        invoke_def ret_def ex_chat_sel ex_msg_sel)
  have b: "getAllUnreadMessages ex_collab_marked ex_ready [] = (Inr [], [CGetChats])"
    by (simp add: getAllUnreadMessages_def getChats_run ex_ready_sel await_def cs ex_chat_sel)
  from a b show ?thesis by simp
qed

subsection \<open>Marking all chats as read\<close>

text \<open>
  C3. On a ready adapter whose collaborator returns \<open>chats\<close>, \<open>markAllChatsAsRead\<close> sends a
  read receipt to every chat with \<open>unreadCount > 0\<close>, in order, whatever the outcome of the
  earlier ones, and returns one entry per such chat: a success entry where the receipt went
  through, a failure entry with the error's message where it threw. The result is as long
  as the list of unread chats.
\<close>

theorem markAllChatsAsRead_spec:
  assumes "isReady a" and "hasClient a" and "client_getChats cl = Inr chats"
  shows "\<exists>results. markAllChatsAsRead cl a log =
            (Inr results,
             log @ CGetChats # map CSendSeen (filter (\<lambda>chat. 0 < unreadCount chat) chats))
    \<and> length results = length (filter (\<lambda>chat. 0 < unreadCount chat) chats)
    \<and> results = map (spec_seenResult cl) (filter (\<lambda>chat. 0 < unreadCount chat) chats)
    \<and> map sr_chatId results = map chat_id (filter (\<lambda>chat. 0 < unreadCount chat) chats)
    \<and> map sr_success results =
        map (\<lambda>chat. case chat_sendSeen cl chat of Inl _ \<Rightarrow> False | Inr _ \<Rightarrow> True)
          (filter (\<lambda>chat. 0 < unreadCount chat) chats)"
proof -
  let ?unread = "filter (\<lambda>chat. 0 < unreadCount chat) chats"
  have run: "markAllChatsAsRead cl a log =
      (Inr (map (spec_seenResult cl) ?unread), log @ CGetChats # map CSendSeen ?unread)"
    using assms by (simp add: markAllChatsAsRead_def getChats_run await_def markAllLoop_run Let_def)
  have ids: "map sr_chatId (map (spec_seenResult cl) ?unread) = map chat_id ?unread"
    by (simp add: spec_seenResult_def split: sum.split)
  have oks: "map sr_success (map (spec_seenResult cl) ?unread) =
      map (\<lambda>chat. case chat_sendSeen cl chat of Inl _ \<Rightarrow> False | Inr _ \<Rightarrow> True) ?unread"
    by (simp add: spec_seenResult_def split: sum.split)
  from run ids oks show ?thesis by simp
qed

theorem markAllChatsAsRead_spec_witness:
  "markAllChatsAsRead ex_collab ex_ready [] =
     (Inr [\<lparr>sr_chatId = ''A'', sr_chatName = ''Chat A'', sr_success = True, sr_error = None\<rparr>,
           \<lparr>sr_chatId = ''C'', sr_chatName = ''Chat C'', sr_success = False,
             sr_error = Some ''seen failed''\<rparr>,
           \<lparr>sr_chatId = ''D'', sr_chatName = ''Chat D'', sr_success = True, sr_error = None\<rparr>],
      [CGetChats, CSendSeen (ex_chat ''A'' 2), CSendSeen (ex_chat ''C'' 1),
       CSendSeen (ex_chat ''D'' 3)])"
proof -
  have u: "filter (\<lambda>chat. 0 < unreadCount chat) ex_chats =
      [ex_chat ''A'' 2, ex_chat ''C'' 1, ex_chat ''D'' 3]"
    by (simp add: ex_chats_def ex_chat_sel)
  have r: "spec_seenResult ex_collab (ex_chat ''A'' 2) =
        \<lparr>sr_chatId = ''A'', sr_chatName = ''Chat A'', sr_success = True, sr_error = None\<rparr>"
      "spec_seenResult ex_collab (ex_chat ''C'' 1) =
        \<lparr>sr_chatId = ''C'', sr_chatName = ''Chat C'', sr_success = False,
          sr_error = Some ''seen failed''\<rparr>"
      "spec_seenResult ex_collab (ex_chat ''D'' 3) =
        \<lparr>sr_chatId = ''D'', sr_chatName = ''Chat D'', sr_success = True, sr_error = None\<rparr>"
    by (simp_all add: spec_seenResult_def ex_collab_sel ex_chat_sel)
  from markAllChatsAsRead_spec[OF ex_ready_sel(1,2) ex_collab_sel(1), of "[]"]
  show ?thesis
    unfolding u by (simp add: r)
qed

subsection \<open>Unread chats\<close>

lemma foldl_plus_sum_list: "foldl (\<lambda>sum x. sum + f x) (k::int) xs = k + sum_list (map f xs)"
  by (induction xs arbitrary: k) simp_all

lemma getUnreadChats_run:
  "isReady a \<Longrightarrow> hasClient a \<Longrightarrow> client_getChats cl = Inr chats \<Longrightarrow>
     getUnreadChats cl a log = (Inr (filter (\<lambda>chat. 0 < unreadCount chat) chats), log @ [CGetChats])"
  by (simp add: getUnreadChats_def getChats_run io_defs)

lemma ready_passes: "isReady (whatsappClient srv) \<Longrightarrow> requireClient srv nxt log = nxt log"
  by (simp add: requireClient_def isClientReady_def)

text \<open>
  C4. On a ready adapter whose collaborator returns \<open>chats\<close>, \<open>getUnreadChats\<close> returns
  exactly the chats with \<open>unreadCount > 0\<close>, in order, so no chat with \<open>unreadCount = 0\<close>
  appears; the reply of \<open>GET /api/unread-chats\<close> lists these chats, \<open>count\<close> is their
  number and \<open>totalUnread\<close> the sum of their \<open>unreadCount\<close>.
\<close>

theorem unread_chats_spec:
  assumes "isReady (whatsappClient srv)" and "hasClient (whatsappClient srv)"
    and "client_getChats cl = Inr chats"
  shows "getUnreadChats cl (whatsappClient srv) log =
           (Inr (filter (\<lambda>chat. 0 < unreadCount chat) chats), log @ [CGetChats])
    \<and> (\<forall>chat\<in>set (filter (\<lambda>chat. 0 < unreadCount chat) chats). unreadCount chat \<noteq> 0)
    \<and> (\<exists>resp. router toLowerCase cl srv ApiUnreadChats req log = (resp, log @ [CGetChats])
          \<and> status resp = 200
          \<and> field ''success'' (payload resp) = Some (JBool True)
          \<and> field ''count'' (payload resp) =
              Some (JNum (int (length (filter (\<lambda>chat. 0 < unreadCount chat) chats))))
          \<and> field ''totalUnread'' (payload resp) =
              Some (JNum (sum_list (map unreadCount (filter (\<lambda>chat. 0 < unreadCount chat) chats))))
          \<and> (\<exists>data. field ''data'' (payload resp) = Some (JArr data)
                \<and> map (field ''id'') data =
                    map (\<lambda>chat. Some (JStr (chat_id chat)))
                      (filter (\<lambda>chat. 0 < unreadCount chat) chats)
                \<and> map (field ''unreadCount'') data =
                    map (\<lambda>chat. Some (JNum (unreadCount chat)))
                      (filter (\<lambda>chat. 0 < unreadCount chat) chats)))"
proof -
  let ?unread = "filter (\<lambda>chat. 0 < unreadCount chat) chats"
  have run: "getUnreadChats cl (whatsappClient srv) log = (Inr ?unread, log @ [CGetChats])"
    using assms by (rule getUnreadChats_run)
  have h: "router toLowerCase cl srv ApiUnreadChats req log =
      asyncHandler (unreadChatsHandler cl srv) log"
    using assms(1) by (simp add: router_def ready_passes)
  have "\<exists>resp. asyncHandler (unreadChatsHandler cl srv) log = (resp, log @ [CGetChats])
          \<and> status resp = 200
          \<and> field ''success'' (payload resp) = Some (JBool True)
          \<and> field ''count'' (payload resp) = Some (JNum (int (length ?unread)))
          \<and> field ''totalUnread'' (payload resp) = Some (JNum (sum_list (map unreadCount ?unread)))
          \<and> (\<exists>data. field ''data'' (payload resp) = Some (JArr data)
                \<and> map (field ''id'') data = map (\<lambda>chat. Some (JStr (chat_id chat))) ?unread
                \<and> map (field ''unreadCount'') data =
                    map (\<lambda>chat. Some (JNum (unreadCount chat))) ?unread)"
    by (simp add: asyncHandler_def unreadChatsHandler_def await_def run ret_def json_reply_def
        foldl_plus_sum_list unread_chat_json_def o_def Let_def)
  with run h show ?thesis by simp
qed

theorem unread_chats_spec_witness:
  "getUnreadChats (ex_collab_only [ex_chat ''A'' 2, ex_chat ''B'' 0]) ex_ready [] =
     (Inr [ex_chat ''A'' 2], [CGetChats])
   \<and> (\<exists>resp. router ex_toLowerCase (ex_collab_only [ex_chat ''A'' 2, ex_chat ''B'' 0]) ex_server_ready
                 ApiUnreadChats ex_request [] = (resp, [CGetChats])
         \<and> status resp = 200
         \<and> field ''success'' (payload resp) = Some (JBool True)
         \<and> field ''count'' (payload resp) = Some (JNum 1)
         \<and> field ''totalUnread'' (payload resp) = Some (JNum 2)
         \<and> (\<exists>data. field ''data'' (payload resp) = Some (JArr data)
               \<and> map (field ''id'') data = [Some (JStr ''A'')]
               \<and> map (field ''unreadCount'') data = [Some (JNum 2)]))"
proof -
  have s: "whatsappClient ex_server_ready = ex_ready" by (simp add: ex_server_ready_def)
  have u: "filter (\<lambda>chat. 0 < unreadCount chat) [ex_chat ''A'' 2, ex_chat ''B'' 0] = [ex_chat ''A'' 2]"
    by (simp add: ex_chat_sel)
  have r: "isReady (whatsappClient ex_server_ready)" "hasClient (whatsappClient ex_server_ready)"
    by (simp_all add: s ex_ready_sel)
  from unread_chats_spec[OF r ex_collab_only_sel(1)[of "[ex_chat ''A'' 2, ex_chat ''B'' 0]"],
      where req = ex_request and log = "[]"]
  show ?thesis
    unfolding u s by (simp add: ex_chat_sel)
qed

subsection \<open>The readiness gate\<close>

text \<open>
  C5 (amended). On every data-access route (the routes under \<open>/api\<close>, each registered
  behind \<open>requireClient\<close>), while the adapter is not ready: a request whose body the
  global parsers accept and whose path parameter, if the route has one, decodes is
  answered with status 503 and a body holding \<open>success = false\<close> and \<open>qrAvailable\<close>, true
  exactly when a pairing code is pending (\<open>lastQRCode\<close> is not null); a request whose
  body is rejected or whose path parameter does not decode never reaches the gate and is
  answered by the error middleware with status 500 and \<open>success = false\<close>. Either way
  the call log is unchanged: no collaborator operation ran.
\<close>

theorem requireClient_gate:
  assumes "dataRoute r" and "\<not> isReady (whatsappClient srv)"
  shows "(bodyError req = None \<and> (hasParam r \<longrightarrow> paramError req = None) \<longrightarrow>
            app toLowerCase cl srv r req log =
              (\<lparr>status = 503,
                payload = JObj [(''success'', JBool False),
                  (''error'', JStr ''WhatsApp client is not ready. Please scan QR code first.''),
                  (''qrAvailable'', JBool (lastQRCode srv \<noteq> None))]\<rparr>, log))
    \<and> (\<forall>err. bodyError req = Some err \<longrightarrow>
            app toLowerCase cl srv r req log =
              (\<lparr>status = 500,
                payload = JObj [(''success'', JBool False),
                  (''error'', JStr ''Internal server error''),
                  (''message'', JStr (message err))]\<rparr>, log))
    \<and> (\<forall>err. bodyError req = None \<and> hasParam r \<and> paramError req = Some err \<longrightarrow>
            app toLowerCase cl srv r req log =
              (\<lparr>status = 500,
                payload = JObj [(''success'', JBool False),
                  (''error'', JStr ''Internal server error''),
                  (''message'', JStr (message err))]\<rparr>, log))
    \<and> snd (app toLowerCase cl srv r req log) = log"
proof -
  let ?gate = "(\<lparr>status = 503,
             payload = JObj [(''success'', JBool False),
               (''error'', JStr ''WhatsApp client is not ready. Please scan QR code first.''),
               (''qrAvailable'', JBool (lastQRCode srv \<noteq> None))]\<rparr>, log)"
  have plain: "router toLowerCase cl srv r req log = ?gate" if "\<not> hasParam r"
    using assms that
    by (cases r) (simp_all add: router_def requireClient_def isClientReady_def)
  have param: "router toLowerCase cl srv r req log =
      (case paramError req of Some err \<Rightarrow> (errorHandler err, log) | None \<Rightarrow> ?gate)"
    if "hasParam r"
    using assms that
    by (cases r)
      (simp_all add: router_def decodeParam_def requireClient_def isClientReady_def
        split: option.split)
  show ?thesis
  proof (cases "bodyError req")
    case (Some err)
    then show ?thesis by (simp add: app_def errorHandler_def)
  next
    case None
    show ?thesis
    proof (cases "hasParam r")
      case False
      with None show ?thesis by (simp add: app_def plain)
    next
      case True
      with None show ?thesis
        by (cases "paramError req") (simp_all add: app_def param errorHandler_def)
    qed
  qed
qed

theorem requireClient_gate_witness:
  "app ex_toLowerCase ex_collab ex_server_pairing ApiSendMessage
       (ex_request\<lparr>b_chatId := Some (JStr ''A''), b_message := Some (JStr ''hi'')\<rparr>) [] =
     (\<lparr>status = 503,
       payload = JObj [(''success'', JBool False),
         (''error'', JStr ''WhatsApp client is not ready. Please scan QR code first.''),
         (''qrAvailable'', JBool True)]\<rparr>, [])
   \<and> app ex_toLowerCase ex_collab (ex_server_pairing\<lparr>lastQRCode := None\<rparr>)
       (ApiChatMessages ''A'') ex_request [] =
     (\<lparr>status = 503,
       payload = JObj [(''success'', JBool False),
         (''error'', JStr ''WhatsApp client is not ready. Please scan QR code first.''),
         (''qrAvailable'', JBool False)]\<rparr>, [])
   \<and> app ex_toLowerCase ex_collab ex_server_pairing ApiSendMessage ex_request_malformed [] =
     (\<lparr>status = 500,
       payload = JObj [(''success'', JBool False), (''error'', JStr ''Internal server error''),
         (''message'', JStr ''Unexpected end of JSON input'')]\<rparr>, [])
   \<and> app ex_toLowerCase ex_collab ex_server_pairing (ApiChatMessages ''A'')
       ex_request_undecodable [] =
     (\<lparr>status = 500,
       payload = JObj [(''success'', JBool False), (''error'', JStr ''Internal server error''),
         (''message'', JStr ''Failed to decode param %E0%A4%A'')]\<rparr>, [])"
proof -
  have n: "\<not> isReady (whatsappClient ex_server_pairing)"
      "\<not> isReady (whatsappClient (ex_server_pairing\<lparr>lastQRCode := None\<rparr>))"
    by (simp_all add: ex_server_pairing_def ex_pairing_def)
  have d: "dataRoute ApiSendMessage" "dataRoute (ApiChatMessages ''A'')" by simp_all
  have q: "lastQRCode ex_server_pairing \<noteq> None" by (simp add: ex_server_pairing_def)
  have b: "bodyError (ex_request\<lparr>b_chatId := Some (JStr ''A''), b_message := Some (JStr ''hi'')\<rparr>) = None"
      "bodyError ex_request = None"
      "bodyError ex_request_malformed = Some (Error ''Unexpected end of JSON input'')"
      "bodyError ex_request_undecodable = None"
      "paramError ex_request = None"
      "paramError ex_request_undecodable = Some (Error ''Failed to decode param %E0%A4%A'')"
    by (simp_all add: ex_request_def ex_request_malformed_def ex_request_undecodable_def)
  from requireClient_gate[OF d(1) n(1),
      where req = "ex_request\<lparr>b_chatId := Some (JStr ''A''), b_message := Some (JStr ''hi'')\<rparr>"
      and toLowerCase = ex_toLowerCase and cl = ex_collab and log = "[]"] b(1) q
  have one: "app ex_toLowerCase ex_collab ex_server_pairing ApiSendMessage
       (ex_request\<lparr>b_chatId := Some (JStr ''A''), b_message := Some (JStr ''hi'')\<rparr>) [] =
     (\<lparr>status = 503,
       payload = JObj [(''success'', JBool False),
         (''error'', JStr ''WhatsApp client is not ready. Please scan QR code first.''),
         (''qrAvailable'', JBool True)]\<rparr>, [])"
    by simp
  from requireClient_gate[OF d(2) n(2), where req = ex_request and toLowerCase = ex_toLowerCase
      and cl = ex_collab and log = "[]"] b(2,5)
  have two: "app ex_toLowerCase ex_collab (ex_server_pairing\<lparr>lastQRCode := None\<rparr>)
       (ApiChatMessages ''A'') ex_request [] =
     (\<lparr>status = 503,
       payload = JObj [(''success'', JBool False),
         (''error'', JStr ''WhatsApp client is not ready. Please scan QR code first.''),
         (''qrAvailable'', JBool False)]\<rparr>, [])"
    by simp
  from requireClient_gate[OF d(1) n(1), where req = ex_request_malformed
      and toLowerCase = ex_toLowerCase and cl = ex_collab and log = "[]"] b(3)
  have three: "app ex_toLowerCase ex_collab ex_server_pairing ApiSendMessage ex_request_malformed [] =
     (\<lparr>status = 500,
       payload = JObj [(''success'', JBool False), (''error'', JStr ''Internal server error''),
         (''message'', JStr ''Unexpected end of JSON input'')]\<rparr>, [])"
    by simp
  have h: "hasParam (ApiChatMessages ''A'')" by simp
  from requireClient_gate[OF d(2) n(1), where req = ex_request_undecodable
      and toLowerCase = ex_toLowerCase and cl = ex_collab and log = "[]"] b(4,6) h
  have four: "app ex_toLowerCase ex_collab ex_server_pairing (ApiChatMessages ''A'')
       ex_request_undecodable [] =
     (\<lparr>status = 500,
       payload = JObj [(''success'', JBool False), (''error'', JStr ''Internal server error''),
         (''message'', JStr ''Failed to decode param %E0%A4%A'')]\<rparr>, [])"
    by simp
  from one two three four show ?thesis by simp
qed

text \<open>
  The claim as first stated promised 503 for every request to a data-access route while
  the adapter is not ready: a \<open>POST /api/send-message\<close> whose JSON body is cut short is
  answered with 500 instead. \<open>bodyParser.json()\<close> runs before the route and hands its
  error to the error middleware.
\<close>

theorem malformed_body_not_503:
  "\<not> isReady (whatsappClient ex_server_pairing)
   \<and> status (fst (app ex_toLowerCase ex_collab ex_server_pairing ApiSendMessage
                    ex_request_malformed [])) = 500"
  by (simp add: app_def ex_request_malformed_def errorHandler_def ex_server_pairing_def
      ex_pairing_def)

subsection \<open>Input validation\<close>

lemma router_sendMessage_ready:
  "isReady (whatsappClient srv) \<Longrightarrow>
     router toLowerCase cl srv ApiSendMessage req log = asyncHandler (sendMessageHandler cl srv req) log"
  by (simp add: router_def ready_passes)

lemma router_search_ready:
  "isReady (whatsappClient srv) \<Longrightarrow>
     router toLowerCase cl srv ApiSearch req log = asyncHandler (searchHandler toLowerCase cl srv req) log"
  by (simp add: router_def ready_passes)

lemma sendMessageHandler_delegates:
  assumes "isReady (whatsappClient srv)" and "hasClient (whatsappClient srv)"
    and "\<not> falsy (b_chatId req)" and "\<not> falsy (b_message req)"
  shows "\<exists>resp rest. asyncHandler (sendMessageHandler cl srv req) log =
           (resp, log @ CGetChatById (the (b_chatId req)) # rest) \<and> status resp \<noteq> 400"
proof (cases "client_getChatById cl (the (b_chatId req))")
  case (Inl e)
  with assms show ?thesis
    by (simp add: sendMessageHandler_def asyncHandler_def getChatById_run await_def
        errorHandler_def Let_def)
next
  case (Inr chat)
  show ?thesis
  proof (cases "chat_sendMessage cl chat (the (b_message req))")
    case (Inl e)
    with Inr assms show ?thesis
      by (simp add: sendMessageHandler_def asyncHandler_def getChatById_run await_def
          sendMessage_def invoke_def errorHandler_def Let_def)
  next
    case sent: (Inr m)
    with Inr assms show ?thesis
      by (simp add: sendMessageHandler_def asyncHandler_def getChatById_run await_def
          sendMessage_def invoke_def ret_def json_reply_def Let_def)
  qed
qed

text \<open>
  C7 (amended). Past the readiness gate, \<open>POST /api/send-message\<close> whose \<open>chatId\<close> or
  \<open>message\<close> is missing or falsy (the empty string, null, 0, false), and
  \<open>GET /api/search\<close> whose \<open>query\<close> is missing or empty, are answered with status 400
  and \<open>success = false\<close>, the call log unchanged; when both send fields are truthy the
  route delegates: its first collaborator call is \<open>getChatById chatId\<close>, and the status
  is not 400.
\<close>

theorem validation_before_delegation:
  assumes "isReady (whatsappClient srv)" and "hasClient (whatsappClient srv)"
  shows "(falsy (b_chatId req) \<or> falsy (b_message req) \<longrightarrow>
            router toLowerCase cl srv ApiSendMessage req log =
              (\<lparr>status = 400,
                payload = JObj [(''success'', JBool False),
                  (''error'', JStr ''Both chatId and message are required'')]\<rparr>, log))
    \<and> (q_query req = None \<or> q_query req = Some [] \<longrightarrow>
            router toLowerCase cl srv ApiSearch req log =
              (\<lparr>status = 400,
                payload = JObj [(''success'', JBool False),
                  (''error'', JStr ''query parameter is required'')]\<rparr>, log))
    \<and> (\<not> falsy (b_chatId req) \<and> \<not> falsy (b_message req) \<longrightarrow>
          (\<exists>resp rest. router toLowerCase cl srv ApiSendMessage req log =
              (resp, log @ CGetChatById (the (b_chatId req)) # rest) \<and> status resp \<noteq> 400))"
proof (intro conjI impI)
  assume "falsy (b_chatId req) \<or> falsy (b_message req)"
  then show "router toLowerCase cl srv ApiSendMessage req log =
              (\<lparr>status = 400,
                payload = JObj [(''success'', JBool False),
                  (''error'', JStr ''Both chatId and message are required'')]\<rparr>, log)"
    using assms(1)
    by (auto simp add: router_sendMessage_ready asyncHandler_def sendMessageHandler_def ret_def)
next
  assume "q_query req = None \<or> q_query req = Some []"
  then show "router toLowerCase cl srv ApiSearch req log =
              (\<lparr>status = 400,
                payload = JObj [(''success'', JBool False),
                  (''error'', JStr ''query parameter is required'')]\<rparr>, log)"
    using assms(1)
    by (auto simp add: router_search_ready asyncHandler_def searchHandler_def ret_def)
next
  assume "\<not> falsy (b_chatId req) \<and> \<not> falsy (b_message req)"
  then show "\<exists>resp rest. router toLowerCase cl srv ApiSendMessage req log =
              (resp, log @ CGetChatById (the (b_chatId req)) # rest) \<and> status resp \<noteq> 400"
    using sendMessageHandler_delegates[of srv req cl log] assms
    by (simp add: router_sendMessage_ready)
qed

theorem validation_before_delegation_witness:
  "router ex_toLowerCase ex_collab ex_server_ready ApiSendMessage (ex_request\<lparr>b_chatId := Some (JStr ''A'')\<rparr>) [] =
     (\<lparr>status = 400,
       payload = JObj [(''success'', JBool False),
         (''error'', JStr ''Both chatId and message are required'')]\<rparr>, [])
   \<and> router ex_toLowerCase ex_collab ex_server_ready ApiSearch ex_request [] =
     (\<lparr>status = 400,
       payload = JObj [(''success'', JBool False),
         (''error'', JStr ''query parameter is required'')]\<rparr>, [])
   \<and> (\<exists>resp rest. router ex_toLowerCase ex_collab ex_server_ready ApiSendMessage
          (ex_request\<lparr>b_chatId := Some (JStr ''A''), b_message := Some (JStr ''hi'')\<rparr>) [] =
            (resp, CGetChatById (JStr ''A'') # rest) \<and> status resp \<noteq> 400)"
proof -
  have r: "isReady (whatsappClient ex_server_ready)" "hasClient (whatsappClient ex_server_ready)"
    by (simp_all add: ex_server_ready_def ex_ready_sel)
  have f1: "falsy (b_message (ex_request\<lparr>b_chatId := Some (JStr ''A'')\<rparr>))"
    by (simp add: ex_request_def falsy_def)
  have f2: "q_query ex_request = None" by (simp add: ex_request_def)
  have f3: "\<not> falsy (b_chatId (ex_request\<lparr>b_chatId := Some (JStr ''A''), b_message := Some (JStr ''hi'')\<rparr>))"
     "\<not> falsy (b_message (ex_request\<lparr>b_chatId := Some (JStr ''A''), b_message := Some (JStr ''hi'')\<rparr>))"
    by (simp_all add: falsy_def)
  from validation_before_delegation[OF r, where req = "ex_request\<lparr>b_chatId := Some (JStr ''A'')\<rparr>"
      and cl = ex_collab and log = "[]" and toLowerCase = ex_toLowerCase] f1
  have a: "router ex_toLowerCase ex_collab ex_server_ready ApiSendMessage (ex_request\<lparr>b_chatId := Some (JStr ''A'')\<rparr>) [] =
     (\<lparr>status = 400,
       payload = JObj [(''success'', JBool False),
         (''error'', JStr ''Both chatId and message are required'')]\<rparr>, [])"
    by blast
  from validation_before_delegation[OF r, where req = ex_request and cl = ex_collab and log = "[]"
      and toLowerCase = ex_toLowerCase] f2
  have b: "router ex_toLowerCase ex_collab ex_server_ready ApiSearch ex_request [] =
     (\<lparr>status = 400,
       payload = JObj [(''success'', JBool False),
         (''error'', JStr ''query parameter is required'')]\<rparr>, [])"
    by blast
  from validation_before_delegation[OF r,
      where req = "ex_request\<lparr>b_chatId := Some (JStr ''A''), b_message := Some (JStr ''hi'')\<rparr>"
      and cl = ex_collab and log = "[]" and toLowerCase = ex_toLowerCase] f3
  have c: "\<exists>resp rest. router ex_toLowerCase ex_collab ex_server_ready ApiSendMessage
          (ex_request\<lparr>b_chatId := Some (JStr ''A''), b_message := Some (JStr ''hi'')\<rparr>) [] =
            (resp, CGetChatById (JStr ''A'') # rest) \<and> status resp \<noteq> 400"
    by simp
  from a b c show ?thesis by blast
qed

text \<open>
  The claim as first stated also promised delegation whenever both fields are present:
  a request whose \<open>chatId\<close> is present but empty is rejected with 400 instead.
\<close>

theorem present_but_empty_chatId_rejected:
  "router ex_toLowerCase ex_collab ex_server_ready ApiSendMessage
       (ex_request\<lparr>b_chatId := Some (JStr ''''), b_message := Some (JStr ''hi'')\<rparr>) [] =
     (\<lparr>status = 400,
       payload = JObj [(''success'', JBool False),
         (''error'', JStr ''Both chatId and message are required'')]\<rparr>, [])"
  by (simp add: router_sendMessage_ready ex_server_ready_def ex_ready_sel asyncHandler_def
      sendMessageHandler_def falsy_def ret_def)

subsection \<open>The limit of the messages route\<close>

lemma leadingWhiteSpace_examples:
  "leadingWhiteSpace ''undefined'' = 0" "leadingWhiteSpace ''0'' = 0" "leadingWhiteSpace ''abc'' = 0"
  "leadingWhiteSpace ''25'' = 0" "leadingWhiteSpace ''9007199254740993'' = 0"
  "leadingWhiteSpace (CHR 0xC2 # CHR 0xA0 # ''25'') = 2"
  by (simp_all add: leadingWhiteSpace_def whiteSpace_def)

lemma trimStart_examples:
  "trimStart ''undefined'' = ''undefined''" "trimStart ''0'' = ''0''" "trimStart ''abc'' = ''abc''"
  "trimStart ''25'' = ''25''" "trimStart ''9007199254740993'' = ''9007199254740993''"
  "trimStart (CHR 0xC2 # CHR 0xA0 # ''25'') = ''25''"
  by (simp_all add: leadingWhiteSpace_examples)

lemma bitLength_examples: "bitLength 0 = 0" "bitLength 25 = 5" "bitLength 9007199254740993 = 54"
  by simp_all

lemma toNumber_examples:
  "toNumber 0 = Fin 0" "toNumber 25 = Fin 25" "toNumber 9007199254740993 = Fin 9007199254740992"
  by (simp_all add: toNumber_def Let_def bitLength_examples del: bitLength.simps)

lemma parseInt_examples:
  "parseInt ''undefined'' = NaN" "parseInt ''0'' = Fin 0" "parseInt ''abc'' = NaN"
  "parseInt ''25'' = Fin 25"
  "parseInt (CHR 0xC2 # CHR 0xA0 # ''25'') = Fin 25"
  "parseInt ''9007199254740993'' = Fin 9007199254740992"
  by (simp_all add: parseInt_def Let_def digitValue_def trimStart_examples toNumber_examples
      del: trimStart.simps bitLength.simps)

lemma chatMessages_calls:
  assumes "isReady (whatsappClient srv)" and "hasClient (whatsappClient srv)"
    and "client_getChatById cl (JStr chatId) = Inr chat"
    and "bodyError req = None" and "paramError req = None"
  shows "snd (app toLowerCase cl srv (ApiChatMessages chatId) req log) =
           log @ [CGetChatById (JStr chatId), CGetChatById (JStr chatId),
                  CFetchMessages chat
                    (orDefault (parseInt (case q_limit req of None \<Rightarrow> ''undefined''
                                          | Some s \<Rightarrow> s)) 50)]"
proof -
  let ?limit = "orDefault (parseInt (case q_limit req of None \<Rightarrow> ''undefined'' | Some s \<Rightarrow> s)) 50"
  show ?thesis
  proof (cases "chat_fetchMessages cl chat ?limit")
    case (Inl e)
    with assms show ?thesis
      by (simp add: app_def router_def decodeParam_def ready_passes asyncHandler_def
          chatMessagesHandler_def getChatById_run getMessages_def await_def invoke_def Let_def)
  next
    case (Inr ms)
    with assms show ?thesis
      by (simp add: app_def router_def decodeParam_def ready_passes asyncHandler_def
          chatMessagesHandler_def getChatById_run getMessages_def await_def invoke_def ret_def
          Let_def)
  qed
qed

text \<open>
  C10. In \<open>GET /api/chats/:chatId/messages\<close> (request accepted, adapter ready, chat resolved)
  the messages are fetched with limit 50 when the \<open>limit\<close> parameter is absent, and also
  whenever \<open>parseInt\<close> of it is \<open>NaN\<close> or 0, as for \<open>limit=abc\<close> and \<open>limit=0\<close>; any other
  number \<open>parseInt\<close> yields, an infinity included, is used as it is.
\<close>

theorem limit_default_on_falsy:
  assumes "isReady (whatsappClient srv)" and "hasClient (whatsappClient srv)"
    and "client_getChatById cl (JStr chatId) = Inr chat"
    and "bodyError req = None" and "paramError req = None"
  shows "(q_limit req = None \<longrightarrow>
            snd (app toLowerCase cl srv (ApiChatMessages chatId) req log) =
              log @ [CGetChatById (JStr chatId), CGetChatById (JStr chatId),
                     CFetchMessages chat (Fin 50)])
    \<and> (\<forall>s. q_limit req = Some s \<and> (parseInt s = NaN \<or> parseInt s = Fin 0) \<longrightarrow>
            snd (app toLowerCase cl srv (ApiChatMessages chatId) req log) =
              log @ [CGetChatById (JStr chatId), CGetChatById (JStr chatId),
                     CFetchMessages chat (Fin 50)])
    \<and> (\<forall>s. q_limit req = Some s \<and> parseInt s \<noteq> NaN \<and> parseInt s \<noteq> Fin 0 \<longrightarrow>
            snd (app toLowerCase cl srv (ApiChatMessages chatId) req log) =
              log @ [CGetChatById (JStr chatId), CGetChatById (JStr chatId),
                     CFetchMessages chat (parseInt s)])
    \<and> parseInt ''0'' = Fin 0 \<and> parseInt ''abc'' = NaN"
proof -
  have keep: "orDefault n 50 = n" if "n \<noteq> NaN" and "n \<noteq> Fin 0" for n
    using that by (cases n) (simp_all add: orDefault_def)
  have dflt: "orDefault NaN 50 = Fin 50" "orDefault (Fin 0) 50 = Fin 50"
    by (simp_all add: orDefault_def)
  show ?thesis
    by (auto simp add: chatMessages_calls[OF assms] parseInt_examples keep dflt)
qed

theorem limit_default_on_falsy_witness:
  "snd (app ex_toLowerCase ex_collab ex_server_ready (ApiChatMessages ''A'') ex_request []) =
     [CGetChatById (JStr ''A''), CGetChatById (JStr ''A''), CFetchMessages (ex_chat ''A'' 2) (Fin 50)]
   \<and> snd (app ex_toLowerCase ex_collab ex_server_ready (ApiChatMessages ''A'')
            (ex_request\<lparr>q_limit := Some ''0''\<rparr>) []) =
     [CGetChatById (JStr ''A''), CGetChatById (JStr ''A''), CFetchMessages (ex_chat ''A'' 2) (Fin 50)]
   \<and> snd (app ex_toLowerCase ex_collab ex_server_ready (ApiChatMessages ''A'')
            (ex_request\<lparr>q_limit := Some ''abc''\<rparr>) []) =
     [CGetChatById (JStr ''A''), CGetChatById (JStr ''A''), CFetchMessages (ex_chat ''A'' 2) (Fin 50)]
   \<and> snd (app ex_toLowerCase ex_collab ex_server_ready (ApiChatMessages ''A'')
            (ex_request\<lparr>q_limit := Some ''25''\<rparr>) []) =
     [CGetChatById (JStr ''A''), CGetChatById (JStr ''A''), CFetchMessages (ex_chat ''A'' 2) (Fin 25)]
   \<and> snd (app ex_toLowerCase ex_collab ex_server_ready (ApiChatMessages ''A'')
            (ex_request\<lparr>q_limit := Some (CHR 0xC2 # CHR 0xA0 # ''25'')\<rparr>) []) =
     [CGetChatById (JStr ''A''), CGetChatById (JStr ''A''), CFetchMessages (ex_chat ''A'' 2) (Fin 25)]
   \<and> snd (app ex_toLowerCase ex_collab ex_server_ready (ApiChatMessages ''A'')
            (ex_request\<lparr>q_limit := Some ''9007199254740993''\<rparr>) []) =
     [CGetChatById (JStr ''A''), CGetChatById (JStr ''A''),
      CFetchMessages (ex_chat ''A'' 2) (Fin 9007199254740992)]"
proof -
  have r: "isReady (whatsappClient ex_server_ready)" "hasClient (whatsappClient ex_server_ready)"
    by (simp_all add: ex_server_ready_def ex_ready_sel)
  have b: "bodyError (ex_request\<lparr>q_limit := l\<rparr>) = None" "bodyError ex_request = None" for l
    by (simp_all add: ex_request_def)
  have p: "paramError (ex_request\<lparr>q_limit := l\<rparr>) = None" "paramError ex_request = None" for l
    by (simp_all add: ex_request_def)
  note t = limit_default_on_falsy[OF r ex_collab_byId(1), where log = "[]"
      and toLowerCase = ex_toLowerCase]
  have a: "snd (app ex_toLowerCase ex_collab ex_server_ready (ApiChatMessages ''A'') ex_request []) =
     [CGetChatById (JStr ''A''), CGetChatById (JStr ''A''), CFetchMessages (ex_chat ''A'' 2) (Fin 50)]"
    using t[OF b(2) p(2)] by (simp add: ex_request_def)
  have c0: "snd (app ex_toLowerCase ex_collab ex_server_ready (ApiChatMessages ''A'')
            (ex_request\<lparr>q_limit := Some ''0''\<rparr>) []) =
     [CGetChatById (JStr ''A''), CGetChatById (JStr ''A''), CFetchMessages (ex_chat ''A'' 2) (Fin 50)]"
    using t[OF b(1)[of "Some ''0''"] p(1)] by (simp add: parseInt_examples)
  have c1: "snd (app ex_toLowerCase ex_collab ex_server_ready (ApiChatMessages ''A'')
            (ex_request\<lparr>q_limit := Some ''abc''\<rparr>) []) =
     [CGetChatById (JStr ''A''), CGetChatById (JStr ''A''), CFetchMessages (ex_chat ''A'' 2) (Fin 50)]"
    using t[OF b(1)[of "Some ''abc''"] p(1)] by (simp add: parseInt_examples)
  have c2: "snd (app ex_toLowerCase ex_collab ex_server_ready (ApiChatMessages ''A'')
            (ex_request\<lparr>q_limit := Some ''25''\<rparr>) []) =
     [CGetChatById (JStr ''A''), CGetChatById (JStr ''A''), CFetchMessages (ex_chat ''A'' 2) (Fin 25)]"
    using t[OF b(1)[of "Some ''25''"] p(1)] by (simp add: parseInt_examples)
  have c3: "snd (app ex_toLowerCase ex_collab ex_server_ready (ApiChatMessages ''A'')
            (ex_request\<lparr>q_limit := Some (CHR 0xC2 # CHR 0xA0 # ''25'')\<rparr>) []) =
     [CGetChatById (JStr ''A''), CGetChatById (JStr ''A''), CFetchMessages (ex_chat ''A'' 2) (Fin 25)]"
    using t[OF b(1)[of "Some (CHR 0xC2 # CHR 0xA0 # ''25'')"] p(1)] by (simp add: parseInt_examples)
  have c4: "snd (app ex_toLowerCase ex_collab ex_server_ready (ApiChatMessages ''A'')
            (ex_request\<lparr>q_limit := Some ''9007199254740993''\<rparr>) []) =
     [CGetChatById (JStr ''A''), CGetChatById (JStr ''A''),
      CFetchMessages (ex_chat ''A'' 2) (Fin 9007199254740992)]"
    using t[OF b(1)[of "Some ''9007199254740993''"] p(1)] by (simp add: parseInt_examples)
  from a c0 c1 c2 c3 c4 show ?thesis by simp
qed

subsection \<open>Search\<close>

lemma spec_searchAll_Nil: "spec_searchAll toLowerCase q fetched [] = []"
  by (simp add: spec_searchAll_def)

lemma spec_searchAll_Cons:
  "spec_searchAll toLowerCase q fetched (chat # chats) =
     (if list_ex (spec_match toLowerCase q) (fetched chat) then [spec_searchEntry toLowerCase q chat (fetched chat)] else [])
     @ spec_searchAll toLowerCase q fetched chats"
  by (simp add: spec_searchAll_def)

lemma searchLoop_step:
  "chat_fetchMessages cl chat limit = Inr ms \<Longrightarrow>
     searchLoop toLowerCase cl q limit (chat # chats) acc log =
       searchLoop toLowerCase cl q limit chats
         (if list_ex (spec_match toLowerCase q) ms then acc @ [spec_searchEntry toLowerCase q chat ms] else acc)
         (log @ [CFetchMessages chat limit])"
  by (simp add: isMatch_spec spec_searchEntry_def Let_def list_ex_iff filter_empty_conv)

lemma searchLoop_run:
  assumes "\<forall>chat\<in>set chats. chat_fetchMessages cl chat limit = Inr (fetched chat)"
  shows "searchLoop toLowerCase cl q limit chats acc log =
           (Inr (acc @ spec_searchAll toLowerCase q fetched chats),
            log @ map (\<lambda>chat. CFetchMessages chat limit) chats)"
  using assms
proof (induction chats arbitrary: acc log)
  case Nil
  show ?case by (simp add: spec_searchAll_Nil)
next
  case (Cons chat chats)
  have f: "chat_fetchMessages cl chat limit = Inr (fetched chat)"
    using Cons.prems by simp
  have rest: "\<forall>c\<in>set chats. chat_fetchMessages cl c limit = Inr (fetched c)"
    using Cons.prems by simp
  show ?case
    by (simp only: searchLoop_step[OF f] Cons.IH[OF rest] spec_searchAll_Cons) simp
qed

text \<open>
  C2 (amended). On a ready adapter, \<open>searchMessages\<close> matches a message when its body is
  non-empty and contains the query as a case-insensitive substring, case being folded by
  \<open>toLowerCase\<close>: the lower-cased body contains the lower-cased query. This holds for
  whatever function the runtime's \<open>toLowerCase\<close> is. With a truthy (non-empty) \<open>chatId\<close>
  only that chat is resolved and fetched, and the result is its entry when it has a match
  and empty otherwise. Without one, every chat is fetched and the result holds, in order,
  exactly the chats with at least one match, each with all its matches. Absent options
  stand for \<open>limit = 50\<close> and \<open>chatId = null\<close>.
\<close>

theorem searchMessages_spec:
  assumes "isReady a" and "hasClient a"
  shows "(truthy chatId \<and> client_getChatById cl chatId = Inr chat
            \<and> chat_fetchMessages cl chat limit = Inr messages \<longrightarrow>
          searchMessages toLowerCase cl a query (Some limit) (Some chatId) log =
            (Inr (if list_ex (spec_match toLowerCase query) messages
                  then [spec_searchEntry toLowerCase query chat messages] else []),
             log @ [CGetChatById chatId, CFetchMessages chat limit]))
    \<and> (\<not> truthy chatId \<and> client_getChats cl = Inr chats
            \<and> (\<forall>chat\<in>set chats. chat_fetchMessages cl chat limit = Inr (fetched chat)) \<longrightarrow>
          searchMessages toLowerCase cl a query (Some limit) (Some chatId) log =
            (Inr (spec_searchAll toLowerCase query fetched chats),
             log @ CGetChats # map (\<lambda>chat. CFetchMessages chat limit) chats))
    \<and> searchMessages toLowerCase cl a query None None log =
        searchMessages toLowerCase cl a query (Some (Fin 50)) (Some JNull) log
    \<and> (\<forall>e\<in>set (spec_searchAll toLowerCase query fetched chats).
          se_matches e \<noteq> []
          \<and> (\<forall>m\<in>set (se_matches e).
                body m \<noteq> [] \<and> sublist (toLowerCase query) (toLowerCase (body m))))"
proof (intro conjI impI)
  assume h: "truthy chatId \<and> client_getChatById cl chatId = Inr chat
            \<and> chat_fetchMessages cl chat limit = Inr messages"
  with assms show "searchMessages toLowerCase cl a query (Some limit) (Some chatId) log =
            (Inr (if list_ex (spec_match toLowerCase query) messages
                  then [spec_searchEntry toLowerCase query chat messages] else []),
             log @ [CGetChatById chatId, CFetchMessages chat limit])"
    by (simp add: searchMessages_def getChatById_run await_def invoke_def ret_def Let_def
        isMatch_spec spec_searchEntry_def list_ex_iff filter_empty_conv)
next
  assume h: "\<not> truthy chatId \<and> client_getChats cl = Inr chats
            \<and> (\<forall>chat\<in>set chats. chat_fetchMessages cl chat limit = Inr (fetched chat))"
  then have f: "\<forall>chat\<in>set chats. chat_fetchMessages cl chat limit = Inr (fetched chat)"
    by blast
  from h assms show "searchMessages toLowerCase cl a query (Some limit) (Some chatId) log =
            (Inr (spec_searchAll toLowerCase query fetched chats),
             log @ CGetChats # map (\<lambda>chat. CFetchMessages chat limit) chats)"
    by (simp add: searchMessages_def getChats_run await_def searchLoop_run[OF f])
next
  show "searchMessages toLowerCase cl a query None None log =
        searchMessages toLowerCase cl a query (Some (Fin 50)) (Some JNull) log"
    by (simp add: searchMessages_def)
next
  show "\<forall>e\<in>set (spec_searchAll toLowerCase query fetched chats).
          se_matches e \<noteq> []
          \<and> (\<forall>m\<in>set (se_matches e).
                body m \<noteq> [] \<and> sublist (toLowerCase query) (toLowerCase (body m)))"
    by (auto simp: spec_searchAll_def spec_searchEntry_def spec_match_def spec_containsCI_def
        list_ex_iff
        filter_empty_conv)
qed

lemma ex_matches:
  "spec_containsCI ex_toLowerCase ''HELLO'' ''Hello World''"
  "spec_containsCI ex_toLowerCase ''HELLO'' ''hello back''"
  "\<not> spec_containsCI ex_toLowerCase ''HELLO'' ''note to self''"
  "\<not> spec_containsCI ex_toLowerCase ''HELLO'' ''lunch?''"
  "spec_containsCI ex_toLowerCase (CHR 0xC3 # CHR 0xA9 # ''cole'') (CHR 0xC3 # CHR 0x89 # ''COLE'')"
  by code_simp+

lemma ex_chats_fetch_calls:
  "map (\<lambda>chat. CFetchMessages chat limit) ex_chats =
     [CFetchMessages (ex_chat ''A'' 2) limit, CFetchMessages (ex_chat ''B'' 0) limit,
      CFetchMessages (ex_chat ''C'' 1) limit, CFetchMessages (ex_chat ''D'' 3) limit]"
  by (simp add: ex_chats_def)

lemma ex_search_A:
  "list_ex (spec_match ex_toLowerCase ''HELLO'') (ex_fetched (ex_chat ''A'' 2))"
  "spec_searchEntry ex_toLowerCase ''HELLO'' (ex_chat ''A'' 2) (ex_fetched (ex_chat ''A'' 2)) =
     \<lparr>se_chatId = ''A'', se_chatName = ''Chat A'', se_isGroup = False,
      se_matches = [ex_msg ''a1'' ''Hello World'' False, ex_msg ''a2'' ''hello back'' True]\<rparr>"
  by (simp_all add: ex_fetched_simps spec_searchEntry_def spec_match_def ex_msg_sel ex_chat_sel
      ex_matches)

lemma ex_searchAll:
  "spec_searchAll ex_toLowerCase ''HELLO'' ex_fetched ex_chats =
     [\<lparr>se_chatId = ''A'', se_chatName = ''Chat A'', se_isGroup = False,
       se_matches = [ex_msg ''a1'' ''Hello World'' False, ex_msg ''a2'' ''hello back'' True]\<rparr>]"
  by (simp add: ex_chats_def spec_searchAll_Cons spec_searchAll_Nil ex_search_A)
    (simp add: ex_fetched_simps spec_match_def ex_msg_sel ex_matches)

theorem searchMessages_spec_witness:
  "searchMessages ex_toLowerCase ex_collab ex_ready ''HELLO'' (Some (Fin 10)) (Some (JStr ''A'')) [] =
     (Inr [\<lparr>se_chatId = ''A'', se_chatName = ''Chat A'', se_isGroup = False,
            se_matches = [ex_msg ''a1'' ''Hello World'' False, ex_msg ''a2'' ''hello back'' True]\<rparr>],
      [CGetChatById (JStr ''A''), CFetchMessages (ex_chat ''A'' 2) (Fin 10)])
   \<and> searchMessages ex_toLowerCase ex_collab ex_ready ''HELLO'' (Some (Fin 10)) (Some JNull) [] =
     (Inr [\<lparr>se_chatId = ''A'', se_chatName = ''Chat A'', se_isGroup = False,
            se_matches = [ex_msg ''a1'' ''Hello World'' False, ex_msg ''a2'' ''hello back'' True]\<rparr>],
      [CGetChats, CFetchMessages (ex_chat ''A'' 2) (Fin 10), CFetchMessages (ex_chat ''B'' 0) (Fin 10),
       CFetchMessages (ex_chat ''C'' 1) (Fin 10), CFetchMessages (ex_chat ''D'' 3) (Fin 10)])
   \<and> searchMessages ex_toLowerCase ex_collab_accent ex_ready (CHR 0xC3 # CHR 0xA9 # ''cole'')
        (Some (Fin 10)) (Some JNull) [] =
     (Inr [\<lparr>se_chatId = ''F'', se_chatName = ''Chat F'', se_isGroup = False,
            se_matches = [ex_msg ''f1'' (CHR 0xC3 # CHR 0x89 # ''COLE'') False]\<rparr>],
      [CGetChats, CFetchMessages (ex_chat ''F'' 1) (Fin 10)])"
proof -
  note t = searchMessages_spec[OF ex_ready_sel(1,2), where cl = ex_collab and query = "''HELLO''"
      and limit = "Fin 10" and log = "[]" and fetched = ex_fetched and chats = ex_chats
      and toLowerCase = ex_toLowerCase]
  note u = searchMessages_spec[OF ex_ready_sel(1,2), where cl = ex_collab_accent
      and query = "CHR 0xC3 # CHR 0xA9 # ''cole''" and limit = "Fin 10" and log = "[]"
      and fetched = "\<lambda>chat. [ex_msg ''f1'' (CHR 0xC3 # CHR 0x89 # ''COLE'') False]"
      and chats = "[ex_chat ''F'' 1]" and toLowerCase = ex_toLowerCase and chatId = JNull]
  have acc: "\<not> truthy JNull \<and> client_getChats ex_collab_accent = Inr [ex_chat ''F'' 1]
      \<and> (\<forall>chat\<in>set [ex_chat ''F'' 1]. chat_fetchMessages ex_collab_accent chat (Fin 10) =
            Inr [ex_msg ''f1'' (CHR 0xC3 # CHR 0x89 # ''COLE'') False])"
    by (simp add: ex_collab_accent_def)
  from u acc
  have c0: "searchMessages ex_toLowerCase ex_collab_accent ex_ready (CHR 0xC3 # CHR 0xA9 # ''cole'')
        (Some (Fin 10)) (Some JNull) [] =
     (Inr (spec_searchAll ex_toLowerCase (CHR 0xC3 # CHR 0xA9 # ''cole'')
             (\<lambda>chat. [ex_msg ''f1'' (CHR 0xC3 # CHR 0x89 # ''COLE'') False]) [ex_chat ''F'' 1]),
      [] @ CGetChats # map (\<lambda>chat. CFetchMessages chat (Fin 10)) [ex_chat ''F'' 1])"
    by blast
  have c: "searchMessages ex_toLowerCase ex_collab_accent ex_ready (CHR 0xC3 # CHR 0xA9 # ''cole'')
        (Some (Fin 10)) (Some JNull) [] =
     (Inr [\<lparr>se_chatId = ''F'', se_chatName = ''Chat F'', se_isGroup = False,
            se_matches = [ex_msg ''f1'' (CHR 0xC3 # CHR 0x89 # ''COLE'') False]\<rparr>],
      [CGetChats, CFetchMessages (ex_chat ''F'' 1) (Fin 10)])"
    unfolding c0
    by (simp add: spec_searchAll_Cons spec_searchAll_Nil spec_searchEntry_def spec_match_def
        ex_msg_sel ex_chat_sel ex_matches)
  have one: "truthy (JStr ''A'') \<and> client_getChatById ex_collab (JStr ''A'') = Inr (ex_chat ''A'' 2)
      \<and> chat_fetchMessages ex_collab (ex_chat ''A'' 2) (Fin 10) = Inr (ex_fetched (ex_chat ''A'' 2))"
    by (simp add: ex_collab_byId ex_collab_sel)
  have all: "\<not> truthy JNull \<and> client_getChats ex_collab = Inr ex_chats
      \<and> (\<forall>chat\<in>set ex_chats. chat_fetchMessages ex_collab chat (Fin 10) = Inr (ex_fetched chat))"
    by (simp add: ex_collab_sel)
  from t[where chatId = "JStr ''A''" and chat = "ex_chat ''A'' 2"
      and messages = "ex_fetched (ex_chat ''A'' 2)"] one
  have a: "searchMessages ex_toLowerCase ex_collab ex_ready ''HELLO'' (Some (Fin 10)) (Some (JStr ''A'')) [] =
     (Inr (if list_ex (spec_match ex_toLowerCase ''HELLO'') (ex_fetched (ex_chat ''A'' 2))
           then [spec_searchEntry ex_toLowerCase ''HELLO'' (ex_chat ''A'' 2) (ex_fetched (ex_chat ''A'' 2))] else []),
      [] @ [CGetChatById (JStr ''A''), CFetchMessages (ex_chat ''A'' 2) (Fin 10)])"
    by blast
  from t[where chatId = JNull] all
  have b: "searchMessages ex_toLowerCase ex_collab ex_ready ''HELLO'' (Some (Fin 10)) (Some JNull) [] =
     (Inr (spec_searchAll ex_toLowerCase ''HELLO'' ex_fetched ex_chats),
      [] @ CGetChats # map (\<lambda>chat. CFetchMessages chat (Fin 10)) ex_chats)"
    by blast
  from a b c show ?thesis
    by (simp add: ex_search_A ex_searchAll ex_chats_fetch_calls)
qed

text \<open>
  The claim as first stated counts every body that contains the query. With the empty
  query, the empty body of a media message contains it (\<open>"".includes("")\<close> holds), yet
  the chat holding that message is absent from the result: the code skips empty bodies.
\<close>

theorem empty_body_never_matches:
  "chat_fetchMessages ex_collab_media (ex_chat ''E'' 1) (Fin 50) = Inr [ex_msg ''e1'' [] False]
   \<and> includes_str (ex_toLowerCase (body (ex_msg ''e1'' [] False))) (ex_toLowerCase [])
   \<and> spec_containsCI ex_toLowerCase [] (body (ex_msg ''e1'' [] False))
   \<and> searchMessages ex_toLowerCase ex_collab_media ex_ready [] None None [] =
       (Inr [], [CGetChats, CFetchMessages (ex_chat ''E'' 1) (Fin 50)])"
proof -
  have f: "chat_fetchMessages ex_collab_media c l = Inr [ex_msg ''e1'' [] False]" for c l
    by (simp add: ex_collab_media_def)
  have g: "client_getChats ex_collab_media = Inr [ex_chat ''E'' 1]"
    by (simp add: ex_collab_media_def)
  have "searchMessages ex_toLowerCase ex_collab_media ex_ready [] None None [] =
       (Inr [], [CGetChats, CFetchMessages (ex_chat ''E'' 1) (Fin 50)])"
    by (simp add: searchMessages_def getChats_run ex_ready_sel await_def g f isMatch_def ex_msg_sel)
  then show ?thesis
    by (simp add: f ex_msg_sel spec_containsCI_def)
qed

end

